theory Spec2Isabelle
  imports Complex_Main "HOL-Library.Sublist"
begin

section \<open>Numbers, strings and template literals\<close>

text \<open>
  A JavaScript number is modelled as a rational and the arithmetic is exact: rounding of
  IEEE doubles, NaN and the infinities are outside the model, so a value that the source
  computes within a rounding error of a threshold or of a half can fall on the other side
  of it here. A property of an object that
  may be missing is an \<open>option\<close>; \<open>None\<close> is \<open>undefined\<close>.
  Strings are lists of bytes (UTF-8, as the source files are stored); every string
  the engines search in or compare is taken to be ASCII.
\<close>

type_synonym num = rat

text \<open>\<^verbatim>\<open>x || 0\<close> on a number or \<open>undefined\<close>: both \<open>undefined\<close> and \<open>0\<close> give \<open>0\<close>.\<close>

definition orZero :: "num option \<Rightarrow> num" where
  "orZero x = (case x of None \<Rightarrow> 0 | Some v \<Rightarrow> v)"

text \<open>\<^verbatim>\<open>Math.round\<close>: the nearest integer, a tie going up.\<close>

definition Math_round :: "num \<Rightarrow> int" where
  "Math_round x = \<lfloor>x + 1 / 2\<rfloor>"

text \<open>
  A template literal is kept as the list of its parts: the literal text, an interpolated
  number \<^verbatim>\<open>${v}\<close> and a number formatted by \<^verbatim>\<open>${v.toFixed(d)}\<close>. The decimal
  rendering of a number is not modelled; the number itself is kept.
\<close>

datatype piece = Lit string | Num num | Fixed nat num

type_synonym tmpl = "piece list"

text \<open>\<^verbatim>\<open>Array.prototype.join\<close> on strings and on template texts.\<close>

fun join :: "string \<Rightarrow> string list \<Rightarrow> string" where
  "join sep [] = []"
| "join sep [x] = x"
| "join sep (x # y # ys) = x @ sep @ join sep (y # ys)"

fun joinText :: "string \<Rightarrow> tmpl list \<Rightarrow> tmpl" where
  "joinText sep [] = []"
| "joinText sep [x] = x"
| "joinText sep (x # y # ys) = x @ [Lit sep] @ joinText sep (y # ys)"

text \<open>The emoji of the source files, as their UTF-8 bytes.\<close>

definition emoji_star :: string where
  "emoji_star = [CHR 0xF0, CHR 0x9F, CHR 0x8C, CHR 0x9F]"
definition emoji_check :: string where
  "emoji_check = [CHR 0xE2, CHR 0x9C, CHR 0x85]"
definition emoji_thumb :: string where
  "emoji_thumb = [CHR 0xF0, CHR 0x9F, CHR 0x91, CHR 0x8D]"
definition emoji_warn :: string where
  "emoji_warn = [CHR 0xE2, CHR 0x9A, CHR 0xA0, CHR 0xEF, CHR 0xB8, CHR 0x8F]"
definition emoji_cross :: string where
  "emoji_cross = [CHR 0xE2, CHR 0x9D, CHR 0x8C]"
definition emoji_stop :: string where
  "emoji_stop = [CHR 0xF0, CHR 0x9F, CHR 0x9A, CHR 0xAB]"
definition emoji_bolt :: string where
  "emoji_bolt = [CHR 0xE2, CHR 0x9A, CHR 0xA1]"
definition emoji_bulb :: string where
  "emoji_bulb = [CHR 0xF0, CHR 0x9F, CHR 0x92, CHR 0xA1]"
definition emoji_sparkles :: string where
  "emoji_sparkles = [CHR 0xE2, CHR 0x9C, CHR 0xA8]"
definition emoji_medal :: string where
  "emoji_medal = [CHR 0xE2, CHR 0xAD, CHR 0x90]"

section \<open>The nutrition record\<close>

text \<open>Nutrition facts per 100g, as the caller supplies them: every field may be missing.\<close>

record nutrition =
  calories :: "num option"
  sugar :: "num option"
  fat :: "num option"
  saturatedFat :: "num option"
  salt :: "num option"
  protein :: "num option"
  fiber :: "num option"
  carbs :: "num option"
  caffeine :: "num option"
  iron :: "num option"
  calcium :: "num option"

section \<open>Health score engine (calculateHealthScore)\<close>

text \<open>The normalised record \<open>n\<close> of \<open>calculateHealthScore\<close>.\<close>

record normalized =
  n_calories :: num
  n_sugar :: num
  n_fat :: num
  n_salt :: num
  n_protein :: num
  n_fiber :: num

definition normalizeRecord :: "nutrition \<Rightarrow> normalized" where
  "normalizeRecord nutr =
     \<lparr> n_calories = max 0 (orZero (calories nutr)),
       n_sugar = max 0 (orZero (sugar nutr)),
       n_fat = max 0 (orZero (fat nutr)),
       n_salt = max 0 (orZero (salt nutr)),
       n_protein = max 0 (orZero (protein nutr)),
       n_fiber = max 0 (orZero (fiber nutr)) \<rparr>"

record score_options =
  opt_gender :: "string option"
  opt_isDiabetic :: "bool option"
  opt_activityLevel :: "string option"

text \<open>\<^verbatim>\<open>options.isDiabetic || false\<close>\<close>

definition orFalse :: "bool option \<Rightarrow> bool" where
  "orFalse b = (case b of None \<Rightarrow> False | Some v \<Rightarrow> v)"

text \<open>The \<open>value\<close> field of an entry holds a number or a tag.\<close>

datatype entry_value = NumV num | StrV string

record penalty =
  p_type :: string
  p_value :: entry_value
  p_penalty :: num
  p_message :: tmpl

record reward =
  r_type :: string
  r_value :: entry_value
  r_bonus :: num
  r_message :: tmpl

text \<open>The three variables the scoring pass updates: \<open>score\<close>, \<open>penalties\<close>, \<open>rewards\<close>.\<close>

record pass =
  st_score :: num
  st_penalties :: "penalty list"
  st_rewards :: "reward list"

definition subtract :: "penalty \<Rightarrow> pass \<Rightarrow> pass" where
  "subtract p st = st\<lparr> st_score := st_score st - p_penalty p,
                       st_penalties := st_penalties st @ [p] \<rparr>"

definition add :: "reward \<Rightarrow> pass \<Rightarrow> pass" where
  "add r st = st\<lparr> st_score := st_score st + r_bonus r,
                  st_rewards := st_rewards st @ [r] \<rparr>"

definition caloriePenaltyOf :: "num \<Rightarrow> num" where
  "caloriePenaltyOf cal =
     (let calorieExcess = cal - 200;
          caloriePenalty =
            (if calorieExcess \<le> 100 then calorieExcess * 0.05
             else if calorieExcess \<le> 200 then 5 + (calorieExcess - 100) * 0.08
             else 13 + (calorieExcess - 200) * 0.06)
      in min 25 caloriePenalty)"

definition calorieEntry :: "normalized \<Rightarrow> penalty" where
  "calorieEntry n =
     \<lparr> p_type = ''calories'', p_value = NumV (n_calories n),
       p_penalty = caloriePenaltyOf (n_calories n),
       p_message = [Lit ''High calorie density: '', Num (n_calories n), Lit '' kcal/100g''] \<rparr>"

definition calorieStep :: "normalized \<Rightarrow> pass \<Rightarrow> pass" where
  "calorieStep n st = (if n_calories n > 200 then subtract (calorieEntry n) st else st)"

definition sugarPenaltyOf :: "num \<Rightarrow> bool \<Rightarrow> num" where
  "sugarPenaltyOf sug isDiabetic =
     (let sugarExcess = sug - 5;
          sugarPenalty =
            (if sugarExcess \<le> 5 then sugarExcess * 1.5
             else if sugarExcess \<le> 15 then 7.5 + (sugarExcess - 5) * 1.0
             else 17.5 + (sugarExcess - 15) * 0.8);
          sugarPenalty = (if isDiabetic then sugarPenalty * 1.5 else sugarPenalty)
      in min 30 sugarPenalty)"

definition sugarEntry :: "normalized \<Rightarrow> bool \<Rightarrow> penalty" where
  "sugarEntry n isDiabetic =
     \<lparr> p_type = ''sugar'', p_value = NumV (n_sugar n),
       p_penalty = sugarPenaltyOf (n_sugar n) isDiabetic,
       p_message = [Lit ''Sugar content: '', Fixed 1 (n_sugar n), Lit ''g/100g''] \<rparr>"

definition sugarStep :: "normalized \<Rightarrow> bool \<Rightarrow> pass \<Rightarrow> pass" where
  "sugarStep n isDiabetic st =
     (if n_sugar n > 5 then subtract (sugarEntry n isDiabetic) st else st)"

definition fatPenaltyOf :: "num \<Rightarrow> num" where
  "fatPenaltyOf f =
     (let fatExcess = f - 10;
          fatPenalty =
            (if fatExcess \<le> 10 then fatExcess * 0.5
             else if fatExcess \<le> 20 then 5 + (fatExcess - 10) * 0.6
             else 11 + (fatExcess - 20) * 0.45)
      in min 20 fatPenalty)"

definition fatEntry :: "normalized \<Rightarrow> penalty" where
  "fatEntry n =
     \<lparr> p_type = ''fat'', p_value = NumV (n_fat n),
       p_penalty = fatPenaltyOf (n_fat n),
       p_message = [Lit ''Fat content: '', Fixed 1 (n_fat n), Lit ''g/100g''] \<rparr>"

definition fatStep :: "normalized \<Rightarrow> pass \<Rightarrow> pass" where
  "fatStep n st = (if n_fat n > 10 then subtract (fatEntry n) st else st)"

definition saltPenaltyOf :: "num \<Rightarrow> num" where
  "saltPenaltyOf s =
     (let saltExcess = s - 0.3;
          saltPenalty =
            (if saltExcess \<le> 0.5 then saltExcess * 8
             else if saltExcess \<le> 1.5 then 4 + (saltExcess - 0.5) * 6
             else 10 + (saltExcess - 1.5) * 3.3)
      in min 15 saltPenalty)"

definition saltEntry :: "normalized \<Rightarrow> penalty" where
  "saltEntry n =
     \<lparr> p_type = ''salt'', p_value = NumV (n_salt n),
       p_penalty = saltPenaltyOf (n_salt n),
       p_message = [Lit ''Salt content: '', Fixed 2 (n_salt n), Lit ''g/100g''] \<rparr>"

definition saltStep :: "normalized \<Rightarrow> pass \<Rightarrow> pass" where
  "saltStep n st = (if n_salt n > 0.3 then subtract (saltEntry n) st else st)"

definition comboEntry :: penalty where
  "comboEntry =
     \<lparr> p_type = ''combination'', p_value = StrV ''sugar+fat'', p_penalty = 5,
       p_message = [Lit ''High sugar & fat combination''] \<rparr>"

definition comboStep :: "normalized \<Rightarrow> pass \<Rightarrow> pass" where
  "comboStep n st = (if n_sugar n > 10 \<and> n_fat n > 20 then subtract comboEntry st else st)"

definition metabolicEntry :: penalty where
  "metabolicEntry =
     \<lparr> p_type = ''metabolic'', p_value = StrV ''calories+sugar'', p_penalty = 5,
       p_message = [Lit ''High metabolic impact''] \<rparr>"

definition metabolicStep :: "normalized \<Rightarrow> pass \<Rightarrow> pass" where
  "metabolicStep n st =
     (if n_calories n > 400 \<and> n_sugar n > 15 then subtract metabolicEntry st else st)"

definition proteinEntry :: "normalized \<Rightarrow> reward" where
  "proteinEntry n =
     (let proteinBonus =
            (if n_protein n \<ge> 20 then 10
             else if n_protein n \<ge> 15 then 8
             else if n_protein n \<ge> 10 then 5
             else 3)
      in \<lparr> r_type = ''protein'', r_value = NumV (n_protein n), r_bonus = proteinBonus,
           r_message = [Lit ''Good protein: '', Fixed 1 (n_protein n), Lit ''g/100g''] \<rparr>)"

definition proteinStep :: "normalized \<Rightarrow> pass \<Rightarrow> pass" where
  "proteinStep n st = (if n_protein n \<ge> 8 then add (proteinEntry n) st else st)"

definition fiberEntry :: "normalized \<Rightarrow> reward" where
  "fiberEntry n =
     (let fiberBonus =
            (if n_fiber n \<ge> 15 then 10
             else if n_fiber n \<ge> 10 then 8
             else if n_fiber n \<ge> 7 then 5
             else 3)
      in \<lparr> r_type = ''fiber'', r_value = NumV (n_fiber n), r_bonus = fiberBonus,
           r_message = [Lit ''High fiber: '', Fixed 1 (n_fiber n), Lit ''g/100g''] \<rparr>)"

definition fiberStep :: "normalized \<Rightarrow> pass \<Rightarrow> pass" where
  "fiberStep n st = (if n_fiber n \<ge> 5 then add (fiberEntry n) st else st)"

definition lowCalEntry :: "normalized \<Rightarrow> reward" where
  "lowCalEntry n =
     \<lparr> r_type = ''lowcal'', r_value = NumV (n_calories n), r_bonus = 5,
       r_message = [Lit ''Low calorie, good protein balance''] \<rparr>"

definition lowCalStep :: "normalized \<Rightarrow> pass \<Rightarrow> pass" where
  "lowCalStep n st =
     (if n_calories n < 100 \<and> n_protein n \<ge> 5 then add (lowCalEntry n) st else st)"

definition optimalEntry :: reward where
  "optimalEntry =
     \<lparr> r_type = ''optimal'', r_value = StrV ''perfect'', r_bonus = 5,
       r_message = [Lit ''Optimal nutrient balance!''] \<rparr>"

definition optimalStep :: "normalized \<Rightarrow> pass \<Rightarrow> pass" where
  "optimalStep n st =
     (let optimalProfile = n_sugar n < 5 \<and> n_fat n < 10 \<and> n_salt n < 0.5
                           \<and> n_protein n \<ge> 10 \<and> n_fiber n \<ge> 5
      in if optimalProfile then add optimalEntry st else st)"

text \<open>The whole pass, from the perfect score, in the order of the source.\<close>

definition scoringPass :: "normalized \<Rightarrow> bool \<Rightarrow> pass" where
  "scoringPass n isDiabetic =
     optimalStep n (lowCalStep n (fiberStep n (proteinStep n
       (metabolicStep n (comboStep n (saltStep n (fatStep n
         (sugarStep n isDiabetic (calorieStep n
           \<lparr> st_score = 100, st_penalties = [], st_rewards = [] \<rparr>)))))))))"

text \<open>\<^verbatim>\<open>Math.max(0, Math.min(100, Math.round(score)))\<close>\<close>

definition clampScore :: "num \<Rightarrow> int" where
  "clampScore s = max 0 (min 100 (Math_round s))"

record grading =
  g_grade :: string
  g_label :: string
  g_emoji :: string
  g_color :: string

definition gradeOf :: "int \<Rightarrow> grading" where
  "gradeOf score =
     (if score \<ge> 90 then
        \<lparr> g_grade = ''A+'', g_label = ''Excellent'', g_emoji = emoji_star,
          g_color = ''#10b981'' \<rparr>
      else if score \<ge> 80 then
        \<lparr> g_grade = ''A'', g_label = ''Very Good'', g_emoji = emoji_check,
          g_color = ''#22c55e'' \<rparr>
      else if score \<ge> 70 then
        \<lparr> g_grade = ''B'', g_label = ''Good'', g_emoji = emoji_thumb,
          g_color = ''#84cc16'' \<rparr>
      else if score \<ge> 60 then
        \<lparr> g_grade = ''C'', g_label = ''Fair'', g_emoji = emoji_warn,
          g_color = ''#f59e0b'' \<rparr>
      else if score \<ge> 50 then
        \<lparr> g_grade = ''D'', g_label = ''Poor'', g_emoji = emoji_warn,
          g_color = ''#f97316'' \<rparr>
      else
        \<lparr> g_grade = ''F'', g_label = ''Very Poor'', g_emoji = emoji_cross,
          g_color = ''#ef4444'' \<rparr>)"

text \<open>
  \<open>generateRecommendation\<close>. \<^verbatim>\<open>penalties.sort(...)\<close> sorts the caller's array in
  place (a stable sort, descending by penalty), so the function returns the text together
  with the array as it leaves it.
\<close>

definition sortDescending :: "penalty list \<Rightarrow> penalty list" where
  "sortDescending ps = sort_key (\<lambda>p. - p_penalty p) ps"

definition generateRecommendation ::
    "int \<Rightarrow> penalty list \<Rightarrow> bool \<Rightarrow> string \<times> penalty list" where
  "generateRecommendation score penalties isDiabetic =
     (if score \<ge> 85 then
        (''Excellent choice! This food has an outstanding nutritional profile. Perfect for a healthy diet.'',
         penalties)
      else if score \<ge> 70 then
        (''Good choice! A nutritious option that fits well in a balanced diet. Enjoy in moderation.'',
         penalties)
      else if score \<ge> 55 then
        (let sortedPenalties = sortDescending penalties;
             mainIssues = join '' and '' (map p_type (take 2 sortedPenalties))
         in (''Fair choice. Watch out for '' @ mainIssues
               @ '' content. Consider healthier alternatives when possible.'',
             sortedPenalties))
      else
        (let criticalIssues = join '', '' (map p_type (filter (\<lambda>p. p_penalty p > 10) penalties))
         in (emoji_warn @ '' Not recommended for regular consumption. High in ''
               @ criticalIssues @ ''. ''
               @ (if isDiabetic then ''Not suitable for diabetic diet.''
                  else ''Choose healthier alternatives.''),
             penalties)))"

definition generateDiabeticWarning :: "normalized \<Rightarrow> bool \<Rightarrow> string option" where
  "generateDiabeticWarning n isDiabetic =
     (if \<not> isDiabetic then None
      else if n_sugar n > 15 then
        Some (emoji_stop @ '' CRITICAL: Very high sugar content. May cause severe blood glucose spike. Avoid completely.'')
      else if n_sugar n > 10 then
        Some (emoji_warn @ '' WARNING: High sugar content. Will significantly raise blood glucose levels. Not recommended.'')
      else if n_sugar n > 5 then
        Some (emoji_bolt @ '' CAUTION: Moderate sugar content. Monitor blood glucose if consumed. Limit portion size.'')
      else if n_sugar n < 3 \<and> n_calories n < 200 then
        Some (emoji_check @ '' SAFE: Diabetic-friendly option. Low sugar and moderate calories.'')
      else None)"

text \<open>
  The result object. \<open>metadata.timestamp\<close> (the wall clock) is left out. The object is
  built after the recommendation, so \<open>penalties\<close> and the sum \<open>totalPenalties\<close> are
  those of the array as the recommendation leaves it.
\<close>

record health_score =
  hs_score :: int
  hs_grade :: string
  hs_label :: string
  hs_emoji :: string
  hs_color :: string
  hs_recommendation :: string
  hs_diabeticWarning :: "string option"
  hs_penalties :: "penalty list"
  hs_rewards :: "reward list"
  hs_nutritionProfile :: normalized
  hs_totalPenalties :: num
  hs_totalRewards :: num
  hs_version :: string

definition calculateHealthScore :: "nutrition \<Rightarrow> score_options \<Rightarrow> health_score" where
  "calculateHealthScore nutr options =
     (let n = normalizeRecord nutr;
          isDiabetic = orFalse (opt_isDiabetic options);
          st = scoringPass n isDiabetic;
          score = clampScore (st_score st);
          g = gradeOf score;
          (recommendation, penalties) = generateRecommendation score (st_penalties st) isDiabetic;
          diabeticWarning = generateDiabeticWarning n isDiabetic
      in \<lparr> hs_score = score, hs_grade = g_grade g, hs_label = g_label g,
           hs_emoji = g_emoji g, hs_color = g_color g,
           hs_recommendation = recommendation,
           hs_diabeticWarning = diabeticWarning,
           hs_penalties = penalties, hs_rewards = st_rewards st,
           hs_nutritionProfile = n,
           hs_totalPenalties = sum_list (map p_penalty penalties),
           hs_totalRewards = sum_list (map r_bonus (st_rewards st)),
           hs_version = ''2.0'' \<rparr>)"

section \<open>Diabetic warning engine (generateDiabeticWarnings, assessDiabeticRisk)\<close>

text \<open>An entry of \<open>DIABETIC_SEVERITY\<close>.\<close>

record severity =
  sv_level :: string
  sv_color :: string
  sv_bgColor :: string
  sv_icon :: string
  sv_sound :: "string option"
  sv_priority :: nat

definition CRITICAL :: severity where
  "CRITICAL = \<lparr> sv_level = ''critical'', sv_color = ''#dc2626'', sv_bgColor = ''#fee2e2'',
                 sv_icon = emoji_stop, sv_sound = Some ''alert'', sv_priority = 1 \<rparr>"
definition HIGH :: severity where
  "HIGH = \<lparr> sv_level = ''high'', sv_color = ''#ea580c'', sv_bgColor = ''#ffedd5'',
             sv_icon = emoji_warn, sv_sound = Some ''warning'', sv_priority = 2 \<rparr>"
definition MODERATE :: severity where
  "MODERATE = \<lparr> sv_level = ''moderate'', sv_color = ''#f59e0b'', sv_bgColor = ''#fef3c7'',
                 sv_icon = emoji_bolt, sv_sound = Some ''caution'', sv_priority = 3 \<rparr>"
definition LOW :: severity where
  "LOW = \<lparr> sv_level = ''low'', sv_color = ''#84cc16'', sv_bgColor = ''#ecfccb'',
            sv_icon = emoji_bulb, sv_sound = None, sv_priority = 4 \<rparr>"
definition SAFE :: severity where
  "SAFE = \<lparr> sv_level = ''safe'', sv_color = ''#10b981'', sv_bgColor = ''#d1fae5'',
             sv_icon = emoji_check, sv_sound = None, sv_priority = 5 \<rparr>"

definition DIABETIC_SEVERITY :: "(string \<times> severity) list" where
  "DIABETIC_SEVERITY =
     [(''CRITICAL'', CRITICAL), (''HIGH'', HIGH), (''MODERATE'', MODERATE),
      (''LOW'', LOW), (''SAFE'', SAFE)]"

text \<open>
  A warning object: the fields of its severity (spread into it), then its own. The own
  fields do not overwrite a severity field. \<open>impact\<close> and \<open>glycemicImpact\<close> are
  absent from some entries.
\<close>

record warning =
  w_severity :: severity
  w_type :: string
  w_title :: string
  w_message :: tmpl
  w_detail :: tmpl
  w_impact :: "string option"
  w_action :: string
  w_glycemicImpact :: "string option"

definition w_priority :: "warning \<Rightarrow> nat" where
  "w_priority w = sv_priority (w_severity w)"

definition w_level :: "warning \<Rightarrow> string" where
  "w_level w = sv_level (w_severity w)"

record diabetic_options =
  d_isDiabetic :: "bool option"
  d_diabeticType :: "string option"

text \<open>\<^verbatim>\<open>x || d\<close> on a number or \<open>undefined\<close>.\<close>

definition orElse :: "num option \<Rightarrow> num \<Rightarrow> num" where
  "orElse x d = (case x of None \<Rightarrow> d | Some v \<Rightarrow> if v = 0 then d else v)"

text \<open>The record \<open>n\<close> of \<open>generateDiabeticWarnings\<close>: no clamping at 0 here.\<close>

record diabetic_n =
  dn_sugar :: num
  dn_calories :: num
  dn_fat :: num
  dn_salt :: num
  dn_protein :: num
  dn_fiber :: num
  dn_carbs :: num

definition diabeticValues :: "nutrition \<Rightarrow> diabetic_n" where
  "diabeticValues nutr =
     \<lparr> dn_sugar = orZero (sugar nutr),
       dn_calories = orZero (calories nutr),
       dn_fat = orZero (fat nutr),
       dn_salt = orZero (salt nutr),
       dn_protein = orZero (protein nutr),
       dn_fiber = orZero (fiber nutr),
       dn_carbs = orElse (carbs nutr) (orZero (sugar nutr)) \<rparr>"

text \<open>The sugar bands: at most one entry.\<close>

definition sugarWarnings :: "diabetic_n \<Rightarrow> warning list" where
  "sugarWarnings n =
     (if dn_sugar n > 20 then
        [\<lparr> w_severity = CRITICAL, w_type = ''sugar_critical'',
            w_title = ''CRITICAL SUGAR LEVEL'',
            w_message = [Lit ''Extremely high sugar content: '', Fixed 1 (dn_sugar n),
                         Lit ''g per 100g''],
            w_detail = [Lit ''May cause severe blood glucose spike. Avoid completely.''],
            w_impact = Some ''Blood glucose may rise by 150-200+ mg/dL'',
            w_action = ''DO NOT CONSUME - Consult healthcare provider'',
            w_glycemicImpact = Some ''very_high'' \<rparr>]
      else if dn_sugar n > 15 then
        [\<lparr> w_severity = HIGH, w_type = ''sugar_high'',
            w_title = ''HIGH SUGAR WARNING'',
            w_message = [Lit ''Very high sugar content: '', Fixed 1 (dn_sugar n),
                         Lit ''g per 100g''],
            w_detail = [Lit ''Will significantly raise blood glucose levels.''],
            w_impact = Some ''Blood glucose may rise by 100-150 mg/dL'',
            w_action = ''Avoid or consume minimal amount with insulin adjustment'',
            w_glycemicImpact = Some ''high'' \<rparr>]
      else if dn_sugar n > 10 then
        [\<lparr> w_severity = MODERATE, w_type = ''sugar_moderate'',
            w_title = ''MODERATE SUGAR ALERT'',
            w_message = [Lit ''Elevated sugar content: '', Fixed 1 (dn_sugar n),
                         Lit ''g per 100g''],
            w_detail = [Lit ''Will raise blood glucose levels noticeably.''],
            w_impact = Some ''Blood glucose may rise by 50-100 mg/dL'',
            w_action = ''Limit portion size, monitor glucose closely'',
            w_glycemicImpact = Some ''moderate'' \<rparr>]
      else if dn_sugar n > 5 then
        [\<lparr> w_severity = LOW, w_type = ''sugar_low'',
            w_title = ''Sugar Content Notice'',
            w_message = [Lit ''Moderate sugar: '', Fixed 1 (dn_sugar n), Lit ''g per 100g''],
            w_detail = [Lit ''May cause mild blood glucose increase.''],
            w_impact = Some ''Blood glucose may rise by 20-50 mg/dL'',
            w_action = ''Consume in small portions, pair with protein/fiber'',
            w_glycemicImpact = Some ''low'' \<rparr>]
      else if dn_sugar n \<le> 3 then
        [\<lparr> w_severity = SAFE, w_type = ''sugar_safe'',
            w_title = ''Low Sugar - Diabetic Friendly'',
            w_message = [Lit ''Low sugar content: '', Fixed 1 (dn_sugar n), Lit ''g per 100g''],
            w_detail = [Lit ''Minimal impact on blood glucose levels.''],
            w_impact = Some ''Blood glucose rise: <20 mg/dL'',
            w_action = ''Safe for consumption in normal portions'',
            w_glycemicImpact = Some ''very_low'' \<rparr>]
      else [])"

definition carbWarnings :: "diabetic_n \<Rightarrow> warning list" where
  "carbWarnings n =
     (if dn_carbs n > 50 then
        [\<lparr> w_severity = HIGH, w_type = ''carb_high'',
            w_title = ''High Carbohydrate Content'',
            w_message = [Lit ''Carbohydrates: '', Fixed 1 (dn_carbs n), Lit ''g per 100g''],
            w_detail = [Lit ''High carb foods require careful glucose monitoring.''],
            w_impact = None,
            w_action = ''Calculate insulin dose if on insulin therapy'',
            w_glycemicImpact = None \<rparr>]
      else [])"

definition combinationWarnings :: "diabetic_n \<Rightarrow> warning list" where
  "combinationWarnings n =
     (if dn_fat n > 20 \<and> dn_sugar n > 10 then
        [\<lparr> w_severity = CRITICAL, w_type = ''combination_danger'',
            w_title = ''DANGEROUS COMBINATION'',
            w_message = [Lit ''High fat + high sugar detected''],
            w_detail = [Lit ''This combination delays glucose absorption and causes prolonged elevated blood sugar.''],
            w_impact = Some ''Extended blood glucose elevation (4-6 hours)'',
            w_action = ''Avoid completely - Very high risk for diabetics'',
            w_glycemicImpact = None \<rparr>]
      else [])"

definition calorieWarnings :: "diabetic_n \<Rightarrow> warning list" where
  "calorieWarnings n =
     (if dn_calories n > 500 then
        [\<lparr> w_severity = MODERATE, w_type = ''calorie_high'',
            w_title = ''Very High Calorie Density'',
            w_message = [Num (dn_calories n), Lit '' kcal per 100g - Ultra-processed food''],
            w_detail = [Lit ''High calorie density may affect insulin sensitivity.''],
            w_impact = None,
            w_action = ''Consume very small portions if at all'',
            w_glycemicImpact = None \<rparr>]
      else [])"

definition saltWarnings :: "diabetic_n \<Rightarrow> warning list" where
  "saltWarnings n =
     (if dn_salt n > 1.5 then
        [\<lparr> w_severity = MODERATE, w_type = ''salt_high'',
            w_title = ''High Salt Content'',
            w_message = [Lit ''Salt: '', Fixed 2 (dn_salt n), Lit ''g per 100g''],
            w_detail = [Lit ''Diabetics have higher risk of hypertension. High salt intake increases cardiovascular risk.''],
            w_impact = None,
            w_action = ''Choose low-sodium alternatives'',
            w_glycemicImpact = None \<rparr>]
      else [])"

definition fiberPositives :: "diabetic_n \<Rightarrow> warning list" where
  "fiberPositives n =
     (if dn_fiber n \<ge> 8 \<and> dn_sugar n < 5 then
        [\<lparr> w_severity = SAFE, w_type = ''fiber_good'',
            w_title = emoji_sparkles @ '' High Fiber Benefit'',
            w_message = [Lit ''Excellent fiber content: '', Fixed 1 (dn_fiber n),
                         Lit ''g per 100g''],
            w_detail = [Lit ''Fiber helps slow glucose absorption and improve blood sugar control.''],
            w_impact = None,
            w_action = ''Great choice for diabetic diet!'',
            w_glycemicImpact = None \<rparr>]
      else [])"

definition proteinPositives :: "diabetic_n \<Rightarrow> warning list" where
  "proteinPositives n =
     (if dn_protein n \<ge> 15 \<and> dn_sugar n < 5 then
        [\<lparr> w_severity = SAFE, w_type = ''protein_good'',
            w_title = emoji_sparkles @ '' High Protein Benefit'',
            w_message = [Lit ''Good protein content: '', Fixed 1 (dn_protein n),
                         Lit ''g per 100g''],
            w_detail = [Lit ''Protein helps stabilize blood sugar levels.''],
            w_impact = None,
            w_action = ''Excellent choice for blood sugar management'',
            w_glycemicImpact = None \<rparr>]
      else [])"

definition idealPositives :: "diabetic_n \<Rightarrow> warning list" where
  "idealPositives n =
     (if dn_sugar n < 3 \<and> dn_calories n < 200 \<and> dn_fiber n \<ge> 5 then
        [\<lparr> w_severity = SAFE, w_type = ''ideal_diabetic'',
            w_title = emoji_star @ '' IDEAL DIABETIC FOOD'',
            w_message = [Lit ''Perfect nutritional profile for diabetes management''],
            w_detail = [Lit ''Low sugar, moderate calories, good fiber content.''],
            w_impact = None,
            w_action = ''Highly recommended for regular consumption'',
            w_glycemicImpact = None \<rparr>]
      else [])"

definition type1Warnings :: "diabetic_n \<Rightarrow> string \<Rightarrow> warning list" where
  "type1Warnings n diabeticType =
     (if diabeticType = ''type1'' \<and> dn_sugar n > 10 then
        [\<lparr> w_severity = HIGH, w_type = ''type1_specific'',
            w_title = ''Type 1 Diabetes Alert'',
            w_message = [Lit ''Requires precise insulin calculation''],
            w_detail = [Lit ''Estimated carbs: '', Fixed 0 (dn_carbs n),
                        Lit ''g - Consult carb counting guide''],
            w_impact = None,
            w_action = ''Calculate bolus insulin dose before consuming'',
            w_glycemicImpact = None \<rparr>]
      else [])"

text \<open>A destructuring default: it replaces a missing property only.\<close>

definition orDefault :: "'a option \<Rightarrow> 'a \<Rightarrow> 'a" where
  "orDefault x d = (case x of None \<Rightarrow> d | Some v \<Rightarrow> v)"

text \<open>The entries in the order the source pushes them, before the final sort.\<close>

definition collectedWarnings :: "diabetic_n \<Rightarrow> string \<Rightarrow> warning list" where
  "collectedWarnings n diabeticType =
     sugarWarnings n @ carbWarnings n @ combinationWarnings n @ calorieWarnings n
       @ saltWarnings n @ fiberPositives n @ proteinPositives n @ idealPositives n
       @ type1Warnings n diabeticType"

text \<open>
  \<^verbatim>\<open>warnings.sort((a, b) => a.priority - b.priority)\<close>: \<open>Array.prototype.sort\<close>
  is a stable sort, here ascending by priority.
\<close>

definition generateDiabeticWarnings :: "nutrition \<Rightarrow> diabetic_options \<Rightarrow> warning list" where
  "generateDiabeticWarnings nutr options =
     (let isDiabetic = orDefault (d_isDiabetic options) False;
          diabeticType = orDefault (d_diabeticType options) ''type2''
      in if \<not> isDiabetic then []
         else sort_key w_priority (collectedWarnings (diabeticValues nutr) diabeticType))"

text \<open>
  ASCII \<open>toUpperCase\<close> and \<open>toLowerCase\<close>: only the letters A to Z and a to z
  change. A character outside ASCII whose lower case is an ASCII letter (the Kelvin sign,
  whose lower case is k) is left as it is here, so a text that matches a term here matches
  it in the source, and not always the other way round.
\<close>

definition upperChar :: "char \<Rightarrow> char" where
  "upperChar c = (let k = (of_char c :: nat) in if 97 \<le> k \<and> k \<le> 122 then char_of (k - 32) else c)"

definition lowerChar :: "char \<Rightarrow> char" where
  "lowerChar c = (let k = (of_char c :: nat) in if 65 \<le> k \<and> k \<le> 90 then char_of (k + 32) else c)"

definition toUpperCase :: "string \<Rightarrow> string" where
  "toUpperCase s = map upperChar s"

definition toLowerCase :: "string \<Rightarrow> string" where
  "toLowerCase s = map lowerChar s"

text \<open>
  The result of \<open>assessDiabeticRisk\<close>: the non-diabetic object has only \<open>risk\<close> and
  \<open>score\<close>.
\<close>

record risk_assessment =
  ra_risk :: string
  ra_score :: nat
  ra_recommendation :: "string option"
  ra_severity :: "severity option"

definition assessDiabeticRisk :: "nutrition \<Rightarrow> bool \<Rightarrow> risk_assessment" where
  "assessDiabeticRisk nutr isDiabetic =
     (if \<not> isDiabetic then
        \<lparr> ra_risk = ''not_applicable'', ra_score = 0, ra_recommendation = None,
          ra_severity = None \<rparr>
      else
        let sug = orZero (sugar nutr);
            f = orZero (fat nutr);
            riskScore = (0::nat);
            riskScore = (if sug > 20 then riskScore + 50
                         else if sug > 15 then riskScore + 35
                         else if sug > 10 then riskScore + 20
                         else if sug > 5 then riskScore + 10
                         else riskScore);
            riskScore = (if f > 30 then riskScore + 20
                         else if f > 20 then riskScore + 10
                         else riskScore);
            riskScore = (if sug > 10 \<and> f > 20 then riskScore + 20 else riskScore);
            (risk, recommendation) =
              (if riskScore \<ge> 70 then
                 (''critical'', ''Avoid completely - High risk of severe glucose spike'')
               else if riskScore \<ge> 40 then
                 (''high'', ''Not recommended - Significant glucose impact expected'')
               else if riskScore \<ge> 20 then
                 (''moderate'', ''Consume cautiously - Monitor glucose closely'')
               else if riskScore \<ge> 10 then
                 (''low'', ''Acceptable in small portions'')
               else
                 (''safe'', ''Safe for diabetic consumption''))
        in \<lparr> ra_risk = risk, ra_score = riskScore, ra_recommendation = Some recommendation,
             ra_severity = Some (case map_of DIABETIC_SEVERITY (toUpperCase risk) of
                                   None \<Rightarrow> LOW | Some s \<Rightarrow> s) \<rparr>)"

section \<open>Daily value engine (calculateDailyValue)\<close>

text \<open>
  A reference table maps a nutrient name to its daily target. An object that has none of
  the nutrient names as a property (the nested \<open>athlete\<close> object, or a member that every
  object inherits) is the empty table.
\<close>

type_synonym dv_table = "(string \<times> num) list"

definition dv_male :: dv_table where
  "dv_male = [(''calories'', 2500), (''sugar'', 36), (''fat'', 78), (''saturatedFat'', 24),
              (''salt'', 6), (''sodium'', 2400), (''protein'', 56), (''fiber'', 38),
              (''carbs'', 340), (''cholesterol'', 300)]"

definition dv_female :: dv_table where
  "dv_female = [(''calories'', 2000), (''sugar'', 25), (''fat'', 70), (''saturatedFat'', 20),
                (''salt'', 6), (''sodium'', 2400), (''protein'', 46), (''fiber'', 25),
                (''carbs'', 275), (''cholesterol'', 300)]"

definition dv_pregnant :: dv_table where
  "dv_pregnant = [(''calories'', 2200), (''sugar'', 25), (''fat'', 73), (''saturatedFat'', 22),
                  (''salt'', 6), (''sodium'', 2400), (''protein'', 71), (''fiber'', 28),
                  (''carbs'', 302), (''cholesterol'', 300)]"

definition dv_athlete_male :: dv_table where
  "dv_athlete_male = [(''calories'', 3500), (''sugar'', 50), (''fat'', 117),
                      (''saturatedFat'', 35), (''salt'', 8), (''sodium'', 3200),
                      (''protein'', 140), (''fiber'', 45), (''carbs'', 480),
                      (''cholesterol'', 300)]"

definition dv_athlete_female :: dv_table where
  "dv_athlete_female = [(''calories'', 2800), (''sugar'', 40), (''fat'', 93),
                        (''saturatedFat'', 28), (''salt'', 7), (''sodium'', 2800),
                        (''protein'', 112), (''fiber'', 35), (''carbs'', 385),
                        (''cholesterol'', 300)]"

text \<open>The property names every object inherits; each names a function or an object.\<close>

definition inheritedKeys :: "string list" where
  "inheritedKeys =
     [''constructor'', ''toString'', ''toLocaleString'', ''valueOf'', ''hasOwnProperty'',
      ''isPrototypeOf'', ''propertyIsEnumerable'', ''__proto__'', ''__defineGetter__'',
      ''__defineSetter__'', ''__lookupGetter__'', ''__lookupSetter__'']"

text \<open>\<^verbatim>\<open>DAILY_VALUES[gender]\<close> and \<^verbatim>\<open>DAILY_VALUES.athlete[gender]\<close>.\<close>

definition DAILY_VALUES :: "string \<Rightarrow> dv_table option" where
  "DAILY_VALUES key =
     (if key = ''male'' then Some dv_male
      else if key = ''female'' then Some dv_female
      else if key = ''pregnant'' then Some dv_pregnant
      else if key = ''athlete'' then Some []
      else if key \<in> set inheritedKeys then Some []
      else None)"

definition DAILY_VALUES_athlete :: "string \<Rightarrow> dv_table option" where
  "DAILY_VALUES_athlete key =
     (if key = ''male'' then Some dv_athlete_male
      else if key = ''female'' then Some dv_athlete_female
      else if key \<in> set inheritedKeys then Some []
      else None)"

record dv_options =
  dv_gender :: "string option"
  dv_profile :: "string option"
  dv_servingSize :: "num option"

record category =
  c_name :: string
  c_color :: string
  c_icon :: string
  c_description :: string

definition isPositive :: "string \<Rightarrow> bool" where
  "isPositive nutrient = (nutrient \<in> set [''protein'', ''fiber''])"

definition categorizeDailyValue :: "int \<Rightarrow> string \<Rightarrow> category" where
  "categorizeDailyValue percentage nutrient =
     (if isPositive nutrient then
        (if percentage \<ge> 40 then
           \<lparr> c_name = ''Excellent'', c_color = ''#10b981'', c_icon = emoji_medal,
             c_description = ''Outstanding source'' \<rparr>
         else if percentage \<ge> 20 then
           \<lparr> c_name = ''High'', c_color = ''#22c55e'', c_icon = emoji_check,
             c_description = ''Good source'' \<rparr>
         else if percentage \<ge> 10 then
           \<lparr> c_name = ''Moderate'', c_color = ''#84cc16'', c_icon = emoji_thumb,
             c_description = ''Contains some'' \<rparr>
         else
           \<lparr> c_name = ''Low'', c_color = ''#f59e0b'', c_icon = emoji_bolt,
             c_description = ''Low source'' \<rparr>)
      else
        (if percentage \<ge> 50 then
           \<lparr> c_name = ''Very High'', c_color = ''#ef4444'', c_icon = emoji_stop,
             c_description = ''Excessive amount'' \<rparr>
         else if percentage \<ge> 30 then
           \<lparr> c_name = ''High'', c_color = ''#f97316'', c_icon = emoji_warn,
             c_description = ''High amount'' \<rparr>
         else if percentage \<ge> 15 then
           \<lparr> c_name = ''Moderate'', c_color = ''#f59e0b'', c_icon = emoji_bolt,
             c_description = ''Moderate amount'' \<rparr>
         else if percentage \<ge> 5 then
           \<lparr> c_name = ''Low'', c_color = ''#84cc16'', c_icon = emoji_thumb,
             c_description = ''Low amount'' \<rparr>
         else
           \<lparr> c_name = ''Very Low'', c_color = ''#10b981'', c_icon = emoji_check,
             c_description = ''Minimal amount'' \<rparr>))"

definition generateDVRecommendation :: "int \<Rightarrow> string \<Rightarrow> string \<Rightarrow> string" where
  "generateDVRecommendation percentage nutrient cat =
     (if isPositive nutrient then
        (if percentage \<ge> 40 then
           ''Excellent '' @ nutrient @ '' content! Great for daily intake.''
         else if percentage \<ge> 20 then
           ''Good source of '' @ nutrient @ ''. Contributes well to daily needs.''
         else if percentage \<ge> 10 then
           ''Provides some '' @ nutrient @ ''. Consider supplementing from other sources.''
         else
           ''Low in '' @ nutrient @ ''. Look for additional sources throughout the day.'')
      else
        (if percentage \<ge> 50 then
           ''Very high in '' @ nutrient @ ''. Consume sparingly or avoid.''
         else if percentage \<ge> 30 then
           ''High in '' @ nutrient @ ''. Limit consumption and balance with other foods.''
         else if percentage \<ge> 15 then
           ''Moderate '' @ nutrient @ '' content. Monitor total daily intake.''
         else
           ''Low in '' @ nutrient @ ''. Good for frequent consumption.''))"

record daily_value =
  dvr_value :: num
  dvr_percentage :: int
  dvr_target :: num
  dvr_category :: string
  dvr_color :: string
  dvr_icon :: string
  dvr_description :: string
  dvr_recommendation :: string

text \<open>
  The reference table chosen for the options, and the target of a nutrient in it
  (\<^verbatim>\<open>dvReference[nutrient] || 100\<close>). The nutrient is taken to be a name that no
  object inherits (the engine passes calories, sugar, fat, salt, protein and fiber); for an
  inherited name such as \<open>constructor\<close> the source reads a function and the percentage
  is not a number, which is outside the model.
\<close>

definition dvReferenceOf :: "dv_options \<Rightarrow> dv_table" where
  "dvReferenceOf options =
     (let gender = (case dv_gender options of None \<Rightarrow> ''male'' | Some g \<Rightarrow> g);
          profile = (case dv_profile options of None \<Rightarrow> ''standard'' | Some p \<Rightarrow> p)
      in if profile = ''athlete'' then
           (case DAILY_VALUES_athlete gender of None \<Rightarrow> dv_athlete_male | Some t \<Rightarrow> t)
         else if profile = ''pregnant'' then dv_pregnant
         else (case DAILY_VALUES gender of None \<Rightarrow> dv_male | Some t \<Rightarrow> t))"

definition targetOf :: "dv_table \<Rightarrow> string \<Rightarrow> num" where
  "targetOf dvReference nutrient = orElse (map_of dvReference nutrient) 100"

definition calculateDailyValue :: "num \<Rightarrow> string \<Rightarrow> dv_options \<Rightarrow> daily_value" where
  "calculateDailyValue v nutrient options =
     (let dvReference = dvReferenceOf options;
          targetDV = targetOf dvReference nutrient;
          percentage = Math_round ((v / targetDV) * 100);
          cat = categorizeDailyValue percentage nutrient
      in \<lparr> dvr_value = v, dvr_percentage = percentage, dvr_target = targetDV,
           dvr_category = c_name cat, dvr_color = c_color cat, dvr_icon = c_icon cat,
           dvr_description = c_description cat,
           dvr_recommendation = generateDVRecommendation percentage nutrient (c_name cat) \<rparr>)"

section \<open>Population rules (PREGNANT_LIMITS, CHILD_LIMITS)\<close>

text \<open>\<^verbatim>\<open>String.prototype.includes\<close>: the second string occurs in the first.\<close>

fun str_includes :: "string \<Rightarrow> string \<Rightarrow> bool" where
  "str_includes [] t = (t = [])"
| "str_includes (c # cs) t = (prefix t (c # cs) \<or> str_includes cs t)"

text \<open>A plain string where a template text is expected.\<close>

definition str :: "string \<Rightarrow> tmpl" where
  "str s = [Lit s]"

text \<open>A comparison with \<open>undefined\<close> is false.\<close>

definition ltU :: "num option \<Rightarrow> num \<Rightarrow> bool" where
  "ltU x b = (case x of None \<Rightarrow> False | Some v \<Rightarrow> v < b)"

definition gtU :: "num option \<Rightarrow> num \<Rightarrow> bool" where
  "gtU x b = (case x of None \<Rightarrow> False | Some v \<Rightarrow> v > b)"

definition geU :: "num option \<Rightarrow> num \<Rightarrow> bool" where
  "geU x b = (case x of None \<Rightarrow> False | Some v \<Rightarrow> v \<ge> b)"

text \<open>The number of a field that a guard has found to be present.\<close>

definition numOf :: "num option \<Rightarrow> num" where
  "numOf x = (case x of None \<Rightarrow> 0 | Some v \<Rightarrow> v)"

record product =
  pd_ingredients :: "string option"
  pd_name :: "string option"
  pd_allergens :: "string list option"
  pd_nova :: "num option"

text \<open>\<^verbatim>\<open>s || ''\<close>\<close>

definition orEmpty :: "string option \<Rightarrow> string" where
  "orEmpty s = (case s of None \<Rightarrow> [] | Some v \<Rightarrow> v)"

record tier =
  t_safe :: num
  t_moderate :: num
  t_avoid :: num
  t_reason :: string

record required =
  rq_protein :: num
  rq_fiber :: "num option"
  rq_iron :: "num option"
  rq_calcium :: "num option"

text \<open>
  A warning trigger is a closure; the evaluator chooses its argument from the key it is
  stored under, so the model tags each closure with the argument it expects.
\<close>

datatype trigger =
    OnProduct "product \<Rightarrow> bool"
  | OnAllergens "string list \<Rightarrow> bool"
  | OnIngredients "string \<Rightarrow> bool"
  | OnNutrition "nutrition \<Rightarrow> bool"

record warning_config =
  wc_trigger :: trigger
  wc_message :: string

record limits =
  l_sugar :: tier
  l_salt :: tier
  l_caffeine :: "tier option"
  l_saturatedFat :: "tier option"
  l_fat :: "tier option"
  l_requiredNutrients :: "required option"
  l_essentialNutrients :: "required option"
  l_avoidIngredients :: "string list option"
  l_strictlyAvoided :: "string list option"
  l_cautionIngredients :: "string list option"
  l_warnings :: "(string \<times> warning_config) list option"

definition novaTrigger :: "product \<Rightarrow> bool" where
  "novaTrigger p = (orZero (pd_nova p) \<ge> 4)"

definition artificialTrigger :: "string \<Rightarrow> bool" where
  "artificialTrigger ingredients =
     (if ingredients = [] then False
      else list_ex (\<lambda>code. str_includes (toLowerCase ingredients) code)
             [''e102'', ''e110'', ''e122'', ''e129'', ''e951'', ''e952''])"

definition chokingTrigger :: "product \<Rightarrow> bool" where
  "chokingTrigger p =
     (let name = toLowerCase (orEmpty (pd_name p))
      in list_ex (\<lambda>item. str_includes name item)
           [''whole nut'', ''popcorn'', ''hard candy'', ''gum'', ''marshmallow''])"

definition allergenTrigger :: "string list \<Rightarrow> bool" where
  "allergenTrigger allergens =
     list_ex (\<lambda>a. a \<in> set [''peanuts'', ''tree nuts'', ''shellfish'', ''fish'']) allergens"

definition PREGNANT_LIMITS :: limits where
  "PREGNANT_LIMITS =
     \<lparr> l_sugar = \<lparr> t_safe = 3, t_moderate = 5, t_avoid = 10,
                   t_reason = ''Excess sugar increases gestational diabetes risk'' \<rparr>,
       l_salt = \<lparr> t_safe = 0.2, t_moderate = 0.3, t_avoid = 0.5,
                  t_reason = ''High salt can cause swelling and high blood pressure'' \<rparr>,
       l_caffeine = Some \<lparr> t_safe = 0, t_moderate = 20, t_avoid = 50,
                  t_reason = ''Caffeine crosses placenta, limit to 200mg/day total'' \<rparr>,
       l_saturatedFat = Some \<lparr> t_safe = 3, t_moderate = 5, t_avoid = 8,
                  t_reason = ''High saturated fat affects cardiovascular health'' \<rparr>,
       l_fat = None,
       l_requiredNutrients = Some \<lparr> rq_protein = 5, rq_fiber = Some 3,
                  rq_iron = Some 0.002, rq_calcium = Some 0.1 \<rparr>,
       l_essentialNutrients = None,
       l_avoidIngredients = Some
         [''aspartame'', ''sucralose'', ''saccharin'', ''acesulfame'',
          ''msg'', ''monosodium glutamate'', ''sodium benzoate'',
          ''raw milk'', ''unpasteurized'', ''raw egg'',
          ''retinol'', ''retinyl palmitate'', ''liver'',
          ''alcohol'', ''ethanol'', ''wine'', ''beer'',
          ''shark'', ''swordfish'', ''king mackerel'', ''tilefish''],
       l_strictlyAvoided = None,
       l_cautionIngredients = None,
       l_warnings = Some
         [(''highlyProcessed'',
             \<lparr> wc_trigger = OnProduct novaTrigger,
               wc_message = ''Ultra-processed foods may lack essential nutrients'' \<rparr>),
          (''lowProtein'',
             \<lparr> wc_trigger = OnNutrition (\<lambda>n. ltU (protein n) 2),
               wc_message = ''Low protein content - ensure adequate protein from other sources'' \<rparr>),
          (''highCalories'',
             \<lparr> wc_trigger = OnNutrition (\<lambda>n. gtU (calories n) 400),
               wc_message = ''Very high calorie density - monitor portion sizes'' \<rparr>),
          (''artificialAdditives'',
             \<lparr> wc_trigger = OnIngredients artificialTrigger,
               wc_message = ''Contains artificial additives - choose natural alternatives when possible'' \<rparr>)] \<rparr>"

definition CHILD_LIMITS :: limits where
  "CHILD_LIMITS =
     \<lparr> l_sugar = \<lparr> t_safe = 2, t_moderate = 3, t_avoid = 5,
                   t_reason = ''Excess sugar causes tooth decay and unhealthy eating habits'' \<rparr>,
       l_salt = \<lparr> t_safe = 0.1, t_moderate = 0.2, t_avoid = 0.3,
                  t_reason = ''Young kidneys cannot process excess sodium'' \<rparr>,
       l_caffeine = None,
       l_saturatedFat = Some \<lparr> t_safe = 2, t_moderate = 3, t_avoid = 5,
                  t_reason = ''High saturated fat affects heart health development'' \<rparr>,
       l_fat = Some \<lparr> t_safe = 8, t_moderate = 10, t_avoid = 15,
                  t_reason = ''Excess fat can lead to childhood obesity'' \<rparr>,
       l_requiredNutrients = None,
       l_essentialNutrients = Some \<lparr> rq_protein = 3, rq_fiber = None,
                  rq_iron = Some 0.001, rq_calcium = Some 0.15 \<rparr>,
       l_avoidIngredients = None,
       l_strictlyAvoided = Some
         [''caffeine'', ''coffee'', ''tea'', ''energy drink'',
          ''artificial sweetener'', ''diet'', ''zero sugar'',
          ''alcohol'', ''raw honey'',
          ''whole nuts'', ''popcorn'',
          ''high fructose corn syrup''],
       l_cautionIngredients = Some
         [''chocolate'', ''cocoa'',
          ''artificial color'', ''artificial flavour'',
          ''preservative'', ''e-number'',
          ''hydrogenated'', ''partially hydrogenated'',
          ''palm oil'', ''corn syrup''],
       l_warnings = Some
         [(''choking'',
             \<lparr> wc_trigger = OnProduct chokingTrigger,
               wc_message = emoji_warn @ '' CHOKING HAZARD - Not safe for children under 4 years'' \<rparr>),
          (''allergen'',
             \<lparr> wc_trigger = OnAllergens allergenTrigger,
               wc_message = ''Contains common allergens - introduce carefully and monitor for reactions'' \<rparr>),
          (''lowNutrients'',
             \<lparr> wc_trigger = OnNutrition (\<lambda>n. ltU (protein n) 2 \<and> ltU (fiber n) 1),
               wc_message = ''Low nutritional value - not ideal for growing children'' \<rparr>),
          (''ultraProcessed'',
             \<lparr> wc_trigger = OnProduct novaTrigger,
               wc_message = ''Ultra-processed food - choose whole foods when possible'' \<rparr>)] \<rparr>"

record population_meta =
  pm_displayName :: string
  pm_disclaimer :: string

definition POPULATION_METADATA :: "string \<Rightarrow> population_meta option" where
  "POPULATION_METADATA g =
     (if g = ''pregnant'' then
        Some \<lparr> pm_displayName = [CHR 0xF0, CHR 0x9F, CHR 0xA4, CHR 0xB0] @ '' Pregnant Women'',
               pm_disclaimer = ''This information is for awareness only, not medical advice. Consult your healthcare provider for personalized dietary guidance during pregnancy.'' \<rparr>
      else if g = ''child'' then
        Some \<lparr> pm_displayName = [CHR 0xF0, CHR 0x9F, CHR 0x91, CHR 0xB6] @ '' Children Under 6'',
               pm_disclaimer = ''This information is for awareness only, not medical advice. Consult your pediatrician for specific dietary advice for your child.'' \<rparr>
      else None)"

section \<open>Population food evaluator (evaluateFoodForPopulation)\<close>

text \<open>The emoji literals of the evaluator, as the bytes its source file stores.\<close>

definition ev_emoji_avoid :: string where
  "ev_emoji_avoid = [CHR 0xEF, CHR 0xA3, CHR 0xBF, CHR 0xC3, CHR 0xBC, CHR 0xC3, CHR 0xB6,
                     CHR 0xC2, CHR 0xB4]"
definition ev_emoji_moderate :: string where
  "ev_emoji_moderate = [CHR 0xE2, CHR 0x80, CHR 0x9A, CHR 0xC3, CHR 0xB6, CHR 0xE2, CHR 0x80,
                        CHR 0xA0, CHR 0xC3, CHR 0x94, CHR 0xE2, CHR 0x88, CHR 0x8F, CHR 0xC3,
                        CHR 0xA8]"
definition ev_emoji_good :: string where
  "ev_emoji_good = [CHR 0xE2, CHR 0x80, CHR 0x9A, CHR 0xC3, CHR 0xBA, CHR 0xC3, CHR 0x96]"
definition ev_emoji_unknown :: string where
  "ev_emoji_unknown = [CHR 0xE2, CHR 0x80, CHR 0x9A, CHR 0xC3, CHR 0xB9, CHR 0xC3, CHR 0xAC]"

text \<open>
  The result object; \<open>metadata\<close> is flattened and \<open>metadata.evaluationDate\<close> (the
  wall clock) is left out. \<open>severityScore\<close> is \<open>null\<close> for insufficient data.
\<close>

record evaluation =
  ev_suitability :: string
  ev_emoji :: string
  ev_color :: string
  ev_warnings :: "tmpl list"
  ev_positives :: "tmpl list"
  ev_explanation :: tmpl
  ev_severityScore :: "nat option"
  ev_targetGroup :: string
  ev_displayName :: "string option"
  ev_disclaimer :: string

definition createInsufficientDataResult :: "string \<Rightarrow> evaluation" where
  "createInsufficientDataResult targetGroup =
     \<lparr> ev_suitability = ''Insufficient Data'', ev_emoji = ev_emoji_unknown,
       ev_color = ''#9ca3af'',
       ev_warnings = [str ''Not enough nutrition information to evaluate safety''],
       ev_positives = [],
       ev_explanation = str ''This product lacks sufficient nutrition data for a proper safety assessment.'',
       ev_severityScore = None,
       ev_targetGroup = targetGroup,
       ev_displayName = None,
       ev_disclaimer = ''Unable to evaluate - insufficient product data'' \<rparr>"

definition createAvoidResult :: "string \<Rightarrow> tmpl list \<Rightarrow> tmpl \<Rightarrow> evaluation" where
  "createAvoidResult targetGroup warnings explanation =
     \<lparr> ev_suitability = ''Avoid'', ev_emoji = ev_emoji_avoid, ev_color = ''#ef4444'',
       ev_warnings = warnings,
       ev_positives = [],
       ev_explanation = explanation,
       ev_severityScore = Some 100,
       ev_targetGroup = targetGroup,
       ev_displayName = None,
       ev_disclaimer = ''This information is for awareness only, not medical advice.'' \<rparr>"

record nutrient_result =
  nr_severity :: nat
  nr_warning :: "tmpl option"
  nr_positive :: "tmpl option"

definition evaluateNutrient :: "num \<Rightarrow> tier \<Rightarrow> string \<Rightarrow> nutrient_result" where
  "evaluateNutrient v lm nutrientName =
     (if v \<le> t_safe lm then
        \<lparr> nr_severity = 0, nr_warning = None,
          nr_positive = Some [Lit (''Low '' @ nutrientName @ '' (''), Fixed 1 v,
                              Lit ''g) - excellent''] \<rparr>
      else if v \<le> t_moderate lm then
        \<lparr> nr_severity = 20,
          nr_warning = Some [Lit (''Moderate '' @ nutrientName @ '' (''), Fixed 1 v,
                             Lit (''g) - '' @ t_reason lm)],
          nr_positive = None \<rparr>
      else
        \<lparr> nr_severity = 40,
          nr_warning = Some [Lit (''High '' @ nutrientName @ '' (''), Fixed 1 v,
                             Lit (''g) - '' @ t_reason lm)],
          nr_positive = None \<rparr>)"

record strict_check =
  sc_isViolated :: bool
  sc_message :: string
  sc_explanation :: string

text \<open>The loop of \<open>checkStrictlyAvoided\<close>: it returns at the first term found.\<close>

fun scanAvoided :: "string \<Rightarrow> string \<Rightarrow> string \<Rightarrow> string list \<Rightarrow> strict_check" where
  "scanAvoided ingredients productName targetGroup [] =
     \<lparr> sc_isViolated = False, sc_message = [], sc_explanation = [] \<rparr>"
| "scanAvoided ingredients productName targetGroup (avoided # rest) =
     (let searchTerm = toLowerCase avoided
      in if str_includes ingredients searchTerm \<or> str_includes productName searchTerm then
           \<lparr> sc_isViolated = True,
             sc_message = ''Contains '' @ avoided @ '' - strictly not recommended for ''
                @ (if targetGroup = ''pregnant'' then ''pregnancy'' else ''young children''),
             sc_explanation = ''This product contains ingredients that should be avoided by ''
                @ (if targetGroup = ''pregnant'' then ''pregnant women'' else ''children under 6'')
                @ '' due to safety concerns.'' \<rparr>
         else scanAvoided ingredients productName targetGroup rest)"

definition avoidListOf :: "string \<Rightarrow> limits \<Rightarrow> string list" where
  "avoidListOf targetGroup lm =
     (if targetGroup = ''pregnant'' \<and> l_avoidIngredients lm \<noteq> None then
        the (l_avoidIngredients lm)
      else if targetGroup = ''child'' \<and> l_strictlyAvoided lm \<noteq> None then
        the (l_strictlyAvoided lm)
      else [])"

definition checkStrictlyAvoided :: "product \<Rightarrow> string \<Rightarrow> limits \<Rightarrow> strict_check" where
  "checkStrictlyAvoided productData targetGroup lm =
     (let avoidList = avoidListOf targetGroup lm;
          ingredients = toLowerCase (orEmpty (pd_ingredients productData));
          productName = toLowerCase (orEmpty (pd_name productData))
      in scanAvoided ingredients productName targetGroup avoidList)"

definition checkEssentialNutrients :: "nutrition \<Rightarrow> required \<Rightarrow> tmpl list" where
  "checkEssentialNutrients nutr req =
     (if geU (protein nutr) (rq_protein req) then
        [[Lit ''Good protein source ('', Fixed 1 (numOf (protein nutr)), Lit ''g)'']]
      else [])
     @ (if orZero (fiber nutr) \<noteq> 0 \<and> geU (fiber nutr) (orElse (rq_fiber req) 3) then
          [[Lit ''High fiber ('', Fixed 1 (numOf (fiber nutr)), Lit ''g)'']]
        else [])
     @ (if orZero (iron nutr) \<noteq> 0 \<and> geU (iron nutr) (orElse (rq_iron req) 0.001) then
          [str ''Contains iron - important for development'']
        else [])
     @ (if orZero (calcium nutr) \<noteq> 0 \<and> geU (calcium nutr) (orElse (rq_calcium req) 0.1) then
          [str ''Good calcium source - supports bone health'']
        else [])"

definition checkCautionIngredients :: "string \<Rightarrow> string list \<Rightarrow> string list" where
  "checkCautionIngredients ingredients cautionList =
     filter (\<lambda>item. str_includes (toLowerCase ingredients) (toLowerCase item)) cautionList"

definition detectCaffeineFromIngredients :: "string option \<Rightarrow> num" where
  "detectCaffeineFromIngredients ingredients =
     (if orEmpty ingredients = [] then 0
      else let ingredientsLower = toLowerCase (orEmpty ingredients)
           in if str_includes ingredientsLower ''coffee'' then 80
              else if str_includes ingredientsLower ''espresso'' then 120
              else if str_includes ingredientsLower ''tea'' \<or> str_includes ingredientsLower ''green tea''
                then 30
              else if str_includes ingredientsLower ''chocolate'' \<or> str_includes ingredientsLower ''cocoa''
                then 10
              else if str_includes ingredientsLower ''energy'' then 100
              else 0)"

definition generateExplanation :: "string \<Rightarrow> string \<Rightarrow> tmpl list \<Rightarrow> tmpl list \<Rightarrow> tmpl" where
  "generateExplanation cat targetGroup warnings positives =
     (let groupName = (if targetGroup = ''pregnant'' then ''pregnancy'' else ''young children'')
      in if cat = ''good'' then
           str (''This product appears suitable for '' @ groupName @ ''. '')
           @ (if length positives > 0 then
                str ''Positive aspects: '' @ joinText ''; '' (take 2 positives) @ str ''. ''
              else [])
           @ (if length warnings > 0 then str ''Minor considerations: '' @ hd warnings else [])
         else if cat = ''moderate'' then
           str (''This product can be consumed occasionally by '' @ groupName
                @ '', but should not be a regular choice. '')
           @ (if length warnings > 0 then
                str ''Concerns: '' @ joinText ''; '' (take 2 warnings) @ str ''. ''
              else [])
           @ str ''Monitor portion sizes and frequency.''
         else
           str (''This product is not recommended for '' @ groupName @ ''. '')
           @ (if length warnings > 0 then
                str ''Main concerns: '' @ joinText ''; '' (take 3 warnings) @ str ''. ''
              else [])
           @ str ''Choose alternative products better suited for this population.'')"

text \<open>The three variables the evaluation updates.\<close>

record tally =
  ta_warnings :: "tmpl list"
  ta_positives :: "tmpl list"
  ta_severity :: nat

definition pushWarning :: "tmpl option \<Rightarrow> tally \<Rightarrow> tally" where
  "pushWarning w ta = (case w of None \<Rightarrow> ta | Some m \<Rightarrow> ta\<lparr> ta_warnings := ta_warnings ta @ [m] \<rparr>)"

definition pushPositive :: "tmpl option \<Rightarrow> tally \<Rightarrow> tally" where
  "pushPositive w ta = (case w of None \<Rightarrow> ta | Some m \<Rightarrow> ta\<lparr> ta_positives := ta_positives ta @ [m] \<rparr>)"

definition addSeverity :: "nat \<Rightarrow> tally \<Rightarrow> tally" where
  "addSeverity k ta = ta\<lparr> ta_severity := ta_severity ta + k \<rparr>"

text \<open>Steps 2 to 5: a nutrient against its limits; only sugar and salt push a positive.\<close>

definition nutrientStep :: "bool \<Rightarrow> nutrient_result \<Rightarrow> tally \<Rightarrow> tally" where
  "nutrientStep withPositive r ta =
     (let ta = addSeverity (nr_severity r) ta;
          ta = pushWarning (nr_warning r) ta
      in if withPositive then pushPositive (nr_positive r) ta else ta)"

text \<open>Step 6: caffeine, for pregnant women.\<close>

definition caffeineStep :: "nutrition \<Rightarrow> string \<Rightarrow> product \<Rightarrow> limits \<Rightarrow> tally \<Rightarrow> tally" where
  "caffeineStep nutr targetGroup productData lm ta =
     (case l_caffeine lm of
        None \<Rightarrow> ta
      | Some caf \<Rightarrow>
          if targetGroup = ''pregnant'' then
            let caffeineAmount =
                  orElse (caffeine nutr) (detectCaffeineFromIngredients (pd_ingredients productData))
            in if caffeineAmount > t_moderate caf then
                 addSeverity 50
                   (pushWarning (Some [Lit ''Contains caffeine ('', Num caffeineAmount,
                                       Lit ''mg) - not recommended during pregnancy'']) ta)
               else ta
          else ta)"

text \<open>Steps 7 and 8: the positives.\<close>

definition positivesStep :: "nutrition \<Rightarrow> string \<Rightarrow> limits \<Rightarrow> tally \<Rightarrow> tally" where
  "positivesStep nutr targetGroup lm ta =
     (let ta = (case l_requiredNutrients lm of
                  Some req \<Rightarrow>
                    if targetGroup = ''pregnant'' then
                      ta\<lparr> ta_positives := ta_positives ta @ checkEssentialNutrients nutr req \<rparr>
                    else ta
                | None \<Rightarrow> ta);
          ta = (case l_essentialNutrients lm of
                  Some req \<Rightarrow>
                    if targetGroup = ''child'' then
                      ta\<lparr> ta_positives := ta_positives ta @ checkEssentialNutrients nutr req \<rparr>
                    else ta
                | None \<Rightarrow> ta)
      in if geU (fiber nutr) 3 then
           pushPositive (Some [Lit ''Good fiber content ('', Fixed 1 (numOf (fiber nutr)),
                               Lit ''g) - supports digestive health'']) ta
         else ta)"

text \<open>
  Step 9: the argument of a trigger is chosen by its key. A closure that is handed an
  argument of another shape is taken not to fire.
\<close>

definition runTrigger :: "string \<Rightarrow> trigger \<Rightarrow> product \<Rightarrow> nutrition \<Rightarrow> bool" where
  "runTrigger key trig productData nutr =
     (if key = ''highlyProcessed'' \<or> key = ''ultraProcessed'' then
        (case trig of OnProduct f \<Rightarrow> f productData | _ \<Rightarrow> False)
      else if key = ''allergen'' then
        (case trig of OnAllergens f \<Rightarrow>
                  f (case pd_allergens productData of None \<Rightarrow> [] | Some a \<Rightarrow> a)
              | _ \<Rightarrow> False)
      else if key = ''choking'' then
        (case trig of OnProduct f \<Rightarrow> f productData | _ \<Rightarrow> False)
      else if key = ''artificialAdditives'' then
        (case trig of OnIngredients f \<Rightarrow> f (orEmpty (pd_ingredients productData)) | _ \<Rightarrow> False)
      else
        (case trig of OnNutrition f \<Rightarrow> f nutr | _ \<Rightarrow> False))"

definition triggerStep :: "product \<Rightarrow> nutrition \<Rightarrow> tally \<Rightarrow> string \<times> warning_config \<Rightarrow> tally" where
  "triggerStep productData nutr ta entry =
     (let key = fst entry; config = snd entry;
          triggered = runTrigger key (wc_trigger config) productData nutr
      in if triggered \<and> wc_message config \<noteq> [] then
           addSeverity 15 (pushWarning (Some (str (wc_message config))) ta)
         else ta)"

definition warningsStep :: "product \<Rightarrow> nutrition \<Rightarrow> limits \<Rightarrow> tally \<Rightarrow> tally" where
  "warningsStep productData nutr lm ta =
     (case l_warnings lm of
        None \<Rightarrow> ta
      | Some entries \<Rightarrow> foldl (triggerStep productData nutr) ta entries)"

text \<open>Step 10: caution ingredients, for children.\<close>

definition cautionStep :: "string \<Rightarrow> product \<Rightarrow> limits \<Rightarrow> tally \<Rightarrow> tally" where
  "cautionStep targetGroup productData lm ta =
     (case l_cautionIngredients lm of
        None \<Rightarrow> ta
      | Some cautionList \<Rightarrow>
          if targetGroup = ''child'' \<and> orEmpty (pd_ingredients productData) \<noteq> [] then
            let cautionFound =
                  checkCautionIngredients (orEmpty (pd_ingredients productData)) cautionList
            in if length cautionFound > 0 then
                 addSeverity 10
                   (pushWarning (Some (str (''Contains: '' @ join '', '' cautionFound
                                            @ '' - limit consumption''))) ta)
               else ta
          else ta)"

text \<open>
  \<open>evaluateFoodForPopulation\<close>. The nutrition argument is \<open>None\<close> when it is missing
  or not an object. The limits are those of the rules file (which also stores them on
  \<open>window\<close>).
\<close>

definition evaluateFoodForPopulation ::
    "nutrition option \<Rightarrow> string \<Rightarrow> product \<Rightarrow> evaluation" where
  "evaluateFoodForPopulation nutrition targetGroup productData =
     (case nutrition of
        None \<Rightarrow> createInsufficientDataResult targetGroup
      | Some nutr \<Rightarrow>
          if targetGroup \<notin> set [''pregnant'', ''child''] then
            createInsufficientDataResult targetGroup
          else
            let lm = (if targetGroup = ''pregnant'' then PREGNANT_LIMITS else CHILD_LIMITS);
                strictCheck = checkStrictlyAvoided productData targetGroup lm
            in if sc_isViolated strictCheck then
                 createAvoidResult targetGroup [str (sc_message strictCheck)]
                   (str (sc_explanation strictCheck))
               else
                 let ta = \<lparr> ta_warnings = [], ta_positives = [], ta_severity = 0 \<rparr>;
                     ta = nutrientStep True
                            (evaluateNutrient (orZero (sugar nutr)) (l_sugar lm) ''sugar'') ta;
                     ta = nutrientStep True
                            (evaluateNutrient (orZero (salt nutr)) (l_salt lm) ''salt'') ta;
                     ta = (case l_saturatedFat lm of
                             None \<Rightarrow> ta
                           | Some sf \<Rightarrow>
                               nutrientStep False
                                 (evaluateNutrient (orZero (saturatedFat nutr)) sf
                                    ''saturated fat'') ta);
                     ta = (case l_fat lm of
                             None \<Rightarrow> ta
                           | Some f \<Rightarrow>
                               if targetGroup = ''child'' then
                                 nutrientStep False
                                   (evaluateNutrient (orZero (fat nutr)) f ''fat'') ta
                               else ta);
                     ta = caffeineStep nutr targetGroup productData lm ta;
                     ta = positivesStep nutr targetGroup lm ta;
                     ta = warningsStep productData nutr lm ta;
                     ta = cautionStep targetGroup productData lm ta;
                     severityScore = ta_severity ta;
                     warnings = ta_warnings ta;
                     positives = ta_positives ta;
                     (suitability, emoji, color, explanation) =
                       (if severityScore \<ge> 80 then
                          (''Avoid'', ev_emoji_avoid, ''#ef4444'',
                           generateExplanation ''avoid'' targetGroup warnings positives)
                        else if severityScore \<ge> 40 then
                          (''Moderate'', ev_emoji_moderate, ''#f59e0b'',
                           generateExplanation ''moderate'' targetGroup warnings positives)
                        else
                          (''Good Choice'', ev_emoji_good, ''#10b981'',
                           generateExplanation ''good'' targetGroup warnings positives));
                     metadata = POPULATION_METADATA targetGroup
                 in \<lparr> ev_suitability = suitability, ev_emoji = emoji, ev_color = color,
                      ev_warnings = warnings, ev_positives = positives,
                      ev_explanation = explanation,
                      ev_severityScore = Some severityScore,
                      ev_targetGroup = targetGroup,
                      ev_displayName =
                        Some (case metadata of None \<Rightarrow> targetGroup
                              | Some m \<Rightarrow> pm_displayName m),
                      ev_disclaimer =
                        (case metadata of
                           None \<Rightarrow> ''This information is for awareness only, not medical advice.''
                         | Some m \<Rightarrow> pm_disclaimer m) \<rparr>)"

section \<open>Notions of the specification\<close>





text \<open>The warnings that come from the five sugar bands.\<close>

definition isSugarBand :: "warning \<Rightarrow> bool" where
  "isSugarBand w =
     (w_type w \<in> set [''sugar_critical'', ''sugar_high'', ''sugar_moderate'', ''sugar_low'',
                       ''sugar_safe''])"

text \<open>The levels of severity with their priority numbers.\<close>

definition severityLevels :: "(string \<times> nat) list" where
  "severityLevels =
     [(''critical'', 1), (''high'', 2), (''moderate'', 3), (''low'', 4), (''safe'', 5)]"

text \<open>The five risk labels of \<open>assessDiabeticRisk\<close>.\<close>

definition riskLabels :: "string list" where
  "riskLabels = [''critical'', ''high'', ''moderate'', ''low'', ''safe'']"

text \<open>
  The ranks of the category names: for protein and fiber Low < Moderate < High <
  Excellent; for the nutrients to limit Very Low < Low < Moderate < High < Very High.
\<close>

definition benefitRank :: "string \<Rightarrow> nat" where
  "benefitRank c =
     (if c = ''Low'' then 0 else if c = ''Moderate'' then 1 else if c = ''High'' then 2
      else if c = ''Excellent'' then 3 else 0)"

definition severityRank :: "string \<Rightarrow> nat" where
  "severityRank c =
     (if c = ''Very Low'' then 0 else if c = ''Low'' then 1 else if c = ''Moderate'' then 2
      else if c = ''High'' then 3 else if c = ''Very High'' then 4 else 0)"

text \<open>The denylist of a target group, taken from its limits.\<close>

definition denylist :: "string \<Rightarrow> string list" where
  "denylist targetGroup =
     avoidListOf targetGroup
       (if targetGroup = ''pregnant'' then PREGNANT_LIMITS else CHILD_LIMITS)"

text \<open>The warning that reports a denylisted term, and the explanation that goes with it.\<close>

definition denylistMessage :: "string \<Rightarrow> string \<Rightarrow> tmpl" where
  "denylistMessage targetGroup avoided =
     str (''Contains '' @ avoided @ '' - strictly not recommended for ''
          @ (if targetGroup = ''pregnant'' then ''pregnancy'' else ''young children''))"

definition denylistExplanation :: "string \<Rightarrow> tmpl" where
  "denylistExplanation targetGroup =
     str (''This product contains ingredients that should be avoided by ''
          @ (if targetGroup = ''pregnant'' then ''pregnant women'' else ''children under 6'')
          @ '' due to safety concerns.'')"

text \<open>
  An invariant of the scoring pass: the running score is at least 100 less the penalties
  pushed so far (the rewards only add).
\<close>

definition covered :: "pass \<Rightarrow> bool" where
  "covered st = (100 - sum_list (map p_penalty (st_penalties st)) \<le> st_score st)"

text \<open>
  The exact form of it: the running score is 100 less the penalties pushed so far plus
  the rewards pushed so far.
\<close>

definition balanced :: "pass \<Rightarrow> bool" where
  "balanced st =
     (st_score st = 100 - sum_list (map p_penalty (st_penalties st))
                        + sum_list (map r_bonus (st_rewards st)))"

section \<open>Concrete inputs\<close>

definition noNutrition :: nutrition where
  "noNutrition =
     \<lparr> calories = None, sugar = None, fat = None, saturatedFat = None, salt = None,
       protein = None, fiber = None, carbs = None, caffeine = None, iron = None,
       calcium = None \<rparr>"

definition sugarOnly :: "num \<Rightarrow> nutrition" where
  "sugarOnly k = noNutrition\<lparr> sugar := Some k \<rparr>"

definition sweet :: nutrition where
  "sweet = noNutrition\<lparr> sugar := Some 25 \<rparr>"

definition unsweet :: nutrition where
  "unsweet = noNutrition\<lparr> sugar := Some 2 \<rparr>"

definition sweetAndFat :: nutrition where
  "sweetAndFat = noNutrition\<lparr> sugar := Some 20, fat := Some 30 \<rparr>"

definition poorNutrition :: nutrition where
  "poorNutrition =
     noNutrition\<lparr> calories := Some 500, sugar := Some 30, fat := Some 35, salt := Some 2.5,
                  protein := Some 3, fiber := Some 0 \<rparr>"

definition extremeNutrition :: nutrition where
  "extremeNutrition =
     noNutrition\<lparr> calories := Some 900, sugar := Some 100, fat := Some 80, salt := Some 10,
                  protein := Some 0, fiber := Some 0 \<rparr>"


definition noOptions :: score_options where
  "noOptions = \<lparr> opt_gender = None, opt_isDiabetic = None, opt_activityLevel = None \<rparr>"

definition noProduct :: product where
  "noProduct = \<lparr> pd_ingredients = None, pd_name = None, pd_allergens = None, pd_nova = None \<rparr>"

definition diabeticType1 :: diabetic_options where
  "diabeticType1 = \<lparr> d_isDiabetic = Some True, d_diabeticType = Some ''type1'' \<rparr>"

definition diabeticType2 :: diabetic_options where
  "diabeticType2 = \<lparr> d_isDiabetic = Some True, d_diabeticType = None \<rparr>"

definition notDiabetic :: diabetic_options where
  "notDiabetic = \<lparr> d_isDiabetic = Some False, d_diabeticType = None \<rparr>"

definition noDiabeticOptions :: diabetic_options where
  "noDiabeticOptions = \<lparr> d_isDiabetic = None, d_diabeticType = None \<rparr>"

definition verySweet :: nutrition where
  "verySweet = noNutrition\<lparr> sugar := Some 60, fat := Some 30 \<rparr>"

definition wineSauce :: product where
  "wineSauce = noProduct\<lparr> pd_ingredients := Some ''Water, White WINE, salt'' \<rparr>"

definition popcornSnack :: product where
  "popcornSnack = noProduct\<lparr> pd_name := Some ''Sweet Popcorn'' \<rparr>"

definition femaleStandard :: dv_options where
  "femaleStandard = \<lparr> dv_gender = Some ''female'', dv_profile = None, dv_servingSize = None \<rparr>"

section \<open>Properties of the health score\<close>

lemma hs_score_eq:
  "hs_score (calculateHealthScore nutr options) =
     clampScore (st_score (scoringPass (normalizeRecord nutr) (orFalse (opt_isDiabetic options))))"
  by (simp add: calculateHealthScore_def Let_def split: prod.splits)

text \<open>
  C1. For every nutrition record and every options value the score returned by
  \<open>calculateHealthScore\<close> is an integer between 0 and 100. The extreme record of the
  test suite scores 0.
\<close>

theorem C1_score_bounds:
  "0 \<le> hs_score (calculateHealthScore nutr options)
   \<and> hs_score (calculateHealthScore nutr options) \<le> 100"
  by (simp add: hs_score_eq clampScore_def)

lemma extreme_score: "hs_score (calculateHealthScore extremeNutrition noOptions) = 0"
  by code_simp

subsection \<open>The penalties of a pass\<close>

lemma subtract_simps:
  "st_score (subtract p st) = st_score st - p_penalty p"
  "st_penalties (subtract p st) = st_penalties st @ [p]"
  "st_rewards (subtract p st) = st_rewards st"
  by (simp_all add: subtract_def)

lemma add_simps:
  "st_score (add r st) = st_score st + r_bonus r"
  "st_penalties (add r st) = st_penalties st"
  "st_rewards (add r st) = st_rewards st @ [r]"
  by (simp_all add: add_def)

lemma penalties_steps:
  "st_penalties (calorieStep n st) = st_penalties st @ (if n_calories n > 200 then [calorieEntry n] else [])"
  "st_penalties (sugarStep n d st) = st_penalties st @ (if n_sugar n > 5 then [sugarEntry n d] else [])"
  "st_penalties (fatStep n st) = st_penalties st @ (if n_fat n > 10 then [fatEntry n] else [])"
  "st_penalties (saltStep n st) = st_penalties st @ (if n_salt n > 0.3 then [saltEntry n] else [])"
  "st_penalties (comboStep n st) = st_penalties st @ (if n_sugar n > 10 \<and> n_fat n > 20 then [comboEntry] else [])"
  "st_penalties (metabolicStep n st) = st_penalties st @ (if n_calories n > 400 \<and> n_sugar n > 15 then [metabolicEntry] else [])"
  "st_penalties (proteinStep n st) = st_penalties st"
  "st_penalties (fiberStep n st) = st_penalties st"
  "st_penalties (lowCalStep n st) = st_penalties st"
  "st_penalties (optimalStep n st) = st_penalties st"
  by (simp_all add: calorieStep_def sugarStep_def fatStep_def saltStep_def comboStep_def
        metabolicStep_def proteinStep_def fiberStep_def lowCalStep_def optimalStep_def
        subtract_simps add_simps)

lemma penalties_scoringPass:
  "st_penalties (scoringPass n d) =
     (if n_calories n > 200 then [calorieEntry n] else [])
     @ (if n_sugar n > 5 then [sugarEntry n d] else [])
     @ (if n_fat n > 10 then [fatEntry n] else [])
     @ (if n_salt n > 0.3 then [saltEntry n] else [])
     @ (if n_sugar n > 10 \<and> n_fat n > 20 then [comboEntry] else [])
     @ (if n_calories n > 400 \<and> n_sugar n > 15 then [metabolicEntry] else [])"
  unfolding scoringPass_def penalties_steps by simp







lemma hs_penalties_eq:
  "hs_penalties (calculateHealthScore nutr options) =
     snd (generateRecommendation (hs_score (calculateHealthScore nutr options))
            (st_penalties (scoringPass (normalizeRecord nutr) (orFalse (opt_isDiabetic options))))
            (orFalse (opt_isDiabetic options)))"
  by (simp add: calculateHealthScore_def Let_def split: prod.splits)

lemma snd_generateRecommendation:
  "snd (generateRecommendation score ps d) = (if 55 \<le> score \<and> score < 70 then sortDescending ps else ps)"
  by (simp add: generateRecommendation_def Let_def)















subsection \<open>The recommendation text\<close>

lemma covered_subtract: "covered st \<Longrightarrow> covered (subtract p st)"
  by (simp add: covered_def subtract_simps)

lemma covered_add: "covered st \<Longrightarrow> 0 \<le> r_bonus r \<Longrightarrow> covered (add r st)"
  by (simp add: covered_def add_simps)

lemma covered_steps:
  "covered st \<Longrightarrow> covered (calorieStep n st)"
  "covered st \<Longrightarrow> covered (sugarStep n d st)"
  "covered st \<Longrightarrow> covered (fatStep n st)"
  "covered st \<Longrightarrow> covered (saltStep n st)"
  "covered st \<Longrightarrow> covered (comboStep n st)"
  "covered st \<Longrightarrow> covered (metabolicStep n st)"
  "covered st \<Longrightarrow> covered (proteinStep n st)"
  "covered st \<Longrightarrow> covered (fiberStep n st)"
  "covered st \<Longrightarrow> covered (lowCalStep n st)"
  "covered st \<Longrightarrow> covered (optimalStep n st)"
  by (simp_all add: calorieStep_def sugarStep_def fatStep_def saltStep_def comboStep_def
        metabolicStep_def proteinStep_def fiberStep_def lowCalStep_def optimalStep_def
        covered_subtract covered_add proteinEntry_def fiberEntry_def lowCalEntry_def
        optimalEntry_def Let_def)

lemma covered_scoringPass: "covered (scoringPass n d)"
  unfolding scoringPass_def
  by (intro covered_steps) (simp add: covered_def)

lemma entry_bounds:
  "p_penalty (calorieEntry n) \<le> 30" "p_penalty (sugarEntry n d) \<le> 30"
  "p_penalty (fatEntry n) \<le> 30" "p_penalty (saltEntry n) \<le> 30"
  "p_penalty comboEntry \<le> 30" "p_penalty metabolicEntry \<le> 30"
  by (simp_all add: calorieEntry_def sugarEntry_def fatEntry_def saltEntry_def comboEntry_def
        metabolicEntry_def caloriePenaltyOf_def sugarPenaltyOf_def fatPenaltyOf_def
        saltPenaltyOf_def Let_def)

lemma penalty_le_30:
  "p \<in> set (st_penalties (scoringPass n d)) \<Longrightarrow> p_penalty p \<le> 30"
  by (auto simp add: penalties_scoringPass entry_bounds split: if_splits)

lemma few_penalties_sum:
  assumes "length ps < 2" and "\<And>p. p \<in> set ps \<Longrightarrow> p_penalty p \<le> 30"
  shows "sum_list (map p_penalty ps) \<le> 30"
proof (cases ps)
  case Nil
  then show ?thesis by simp
next
  case (Cons p qs)
  with assms(1) have "qs = []" by simp
  with Cons assms(2) show ?thesis by simp
qed

lemma few_penalties_score:
  assumes "length (st_penalties (scoringPass n d)) < 2"
  shows "70 \<le> clampScore (st_score (scoringPass n d))"
proof -
  have "sum_list (map p_penalty (st_penalties (scoringPass n d))) \<le> 30"
    using assms penalty_le_30 by (rule few_penalties_sum)
  moreover have "100 - sum_list (map p_penalty (st_penalties (scoringPass n d)))
                   \<le> st_score (scoringPass n d)"
    using covered_scoringPass [of n d] by (simp add: covered_def)
  ultimately have "70 \<le> st_score (scoringPass n d)" by linarith
  then have "70 \<le> Math_round (st_score (scoringPass n d))"
    unfolding Math_round_def by (simp add: le_floor_iff)
  then show ?thesis by (simp add: clampScore_def)
qed

lemma hs_recommendation_eq:
  "hs_recommendation (calculateHealthScore nutr options) =
     fst (generateRecommendation (hs_score (calculateHealthScore nutr options))
            (st_penalties (scoringPass (normalizeRecord nutr) (orFalse (opt_isDiabetic options))))
            (orFalse (opt_isDiabetic options)))"
  by (simp add: calculateHealthScore_def Let_def split: prod.splits)

lemma length_sortDescending: "length (sortDescending ps) = length ps"
  by (simp add: sortDescending_def)

lemma descending_sortDescending:
  "sorted_wrt (\<lambda>p q. p_penalty q \<le> p_penalty p) (sortDescending ps)"
proof -
  have "sorted (map (\<lambda>p. - p_penalty p) (sortDescending ps))"
    by (simp add: sortDescending_def)
  then show ?thesis by (simp add: sorted_map)
qed

lemma take2: "2 \<le> length xs \<Longrightarrow> take 2 xs = [xs ! 0, xs ! 1]"
  by (cases xs; cases "tl xs") auto

text \<open>
  C6, as the code has it. When the final score lies in 55..69, the result has at least
  two penalties, listed in descending order of magnitude, and the recommendation names
  the first two of them, the two largest. When the score lies in 70..84 the recommendation
  is a fixed sentence that names no penalty. When the score is below 55 the recommendation
  names every penalty of magnitude above 10.
\<close>

theorem C6_recommendation_bands:
  fixes nutr options
  defines "r \<equiv> calculateHealthScore nutr options"
  shows "(55 \<le> hs_score r \<and> hs_score r \<le> 69 \<longrightarrow>
            2 \<le> length (hs_penalties r)
            \<and> sorted_wrt (\<lambda>p q. p_penalty q \<le> p_penalty p) (hs_penalties r)
            \<and> hs_recommendation r =
                ''Fair choice. Watch out for '' @ p_type (hs_penalties r ! 0) @ '' and ''
                  @ p_type (hs_penalties r ! 1)
                  @ '' content. Consider healthier alternatives when possible.'')
         \<and> (70 \<le> hs_score r \<and> hs_score r \<le> 84 \<longrightarrow>
              hs_recommendation r =
                ''Good choice! A nutritious option that fits well in a balanced diet. Enjoy in moderation.'')
         \<and> (hs_score r < 55 \<longrightarrow>
              hs_recommendation r =
                emoji_warn @ '' Not recommended for regular consumption. High in ''
                  @ join '', '' (map p_type (filter (\<lambda>p. 10 < p_penalty p) (hs_penalties r)))
                  @ ''. ''
                  @ (if orFalse (opt_isDiabetic options) then ''Not suitable for diabetic diet.''
                     else ''Choose healthier alternatives.''))"
proof (intro conjI impI)
  let ?ps = "st_penalties (scoringPass (normalizeRecord nutr) (orFalse (opt_isDiabetic options)))"
  assume band: "55 \<le> hs_score r \<and> hs_score r \<le> 69"
  then have pen: "hs_penalties r = sortDescending ?ps"
    by (simp add: r_def hs_penalties_eq snd_generateRecommendation)
  have "\<not> length ?ps < 2"
    using few_penalties_score [of "normalizeRecord nutr" "orFalse (opt_isDiabetic options)"] band
    by (auto simp add: r_def hs_score_eq)
  then show two: "2 \<le> length (hs_penalties r)"
    by (simp add: pen length_sortDescending)
  show "sorted_wrt (\<lambda>p q. p_penalty q \<le> p_penalty p) (hs_penalties r)"
    by (simp add: pen descending_sortDescending)
  have "hs_recommendation r =
          ''Fair choice. Watch out for '' @ join '' and '' (map p_type (take 2 (hs_penalties r)))
            @ '' content. Consider healthier alternatives when possible.''"
    using band pen by (simp add: r_def hs_recommendation_eq generateRecommendation_def Let_def)
  then show "hs_recommendation r =
                ''Fair choice. Watch out for '' @ p_type (hs_penalties r ! 0) @ '' and ''
                  @ p_type (hs_penalties r ! 1)
                  @ '' content. Consider healthier alternatives when possible.''"
    by (simp add: take2 [OF two])
next
  assume "70 \<le> hs_score r \<and> hs_score r \<le> 84"
  then show "hs_recommendation r =
                ''Good choice! A nutritious option that fits well in a balanced diet. Enjoy in moderation.''"
    by (simp add: r_def hs_recommendation_eq generateRecommendation_def)
next
  assume low: "hs_score r < 55"
  then have pen: "hs_penalties r = st_penalties (scoringPass (normalizeRecord nutr) (orFalse (opt_isDiabetic options)))"
    by (simp add: r_def hs_penalties_eq snd_generateRecommendation)
  show "hs_recommendation r =
                emoji_warn @ '' Not recommended for regular consumption. High in ''
                  @ join '', '' (map p_type (filter (\<lambda>p. 10 < p_penalty p) (hs_penalties r)))
                  @ ''. ''
                  @ (if orFalse (opt_isDiabetic options) then ''Not suitable for diabetic diet.''
                     else ''Choose healthier alternatives.'')"
    using low pen by (simp add: r_def hs_recommendation_eq generateRecommendation_def Let_def)
qed


theorem C6_recommendation_bands_witness:
  "(55 \<le> hs_score (calculateHealthScore sweetAndFat noOptions)
      \<and> hs_score (calculateHealthScore sweetAndFat noOptions) \<le> 69)
   \<and> hs_recommendation (calculateHealthScore sweetAndFat noOptions) =
       ''Fair choice. Watch out for sugar and fat content. Consider healthier alternatives when possible.''
   \<and> (70 \<le> hs_score (calculateHealthScore sweet noOptions)
      \<and> hs_score (calculateHealthScore sweet noOptions) \<le> 84)
   \<and> hs_recommendation (calculateHealthScore sweet noOptions) =
       ''Good choice! A nutritious option that fits well in a balanced diet. Enjoy in moderation.''
   \<and> hs_score (calculateHealthScore poorNutrition noOptions) < 55
   \<and> hs_recommendation (calculateHealthScore poorNutrition noOptions) =
       emoji_warn @ '' Not recommended for regular consumption. High in calories, sugar, fat, salt. Choose healthier alternatives.''"
proof -
  have a: "55 \<le> hs_score (calculateHealthScore sweetAndFat noOptions)
             \<and> hs_score (calculateHealthScore sweetAndFat noOptions) \<le> 69"
    by code_simp
  have a0: "p_type (hs_penalties (calculateHealthScore sweetAndFat noOptions) ! 0) = ''sugar''"
    by code_simp
  have a1: "p_type (hs_penalties (calculateHealthScore sweetAndFat noOptions) ! 1) = ''fat''"
    by code_simp
  have b: "70 \<le> hs_score (calculateHealthScore sweet noOptions)
             \<and> hs_score (calculateHealthScore sweet noOptions) \<le> 84"
    by code_simp
  have c: "hs_score (calculateHealthScore poorNutrition noOptions) < 55"
    by code_simp
  have c0: "map p_type (filter (\<lambda>p. 10 < p_penalty p)
              (hs_penalties (calculateHealthScore poorNutrition noOptions)))
            = [''calories'', ''sugar'', ''fat'', ''salt'']"
    by code_simp
  have c1: "orFalse (opt_isDiabetic noOptions) = False"
    by (simp add: noOptions_def orFalse_def)
  note fair = C6_recommendation_bands [of sweetAndFat noOptions, THEN conjunct1, THEN mp, OF a]
  note good = C6_recommendation_bands [of sweet noOptions, THEN conjunct2, THEN conjunct1,
                THEN mp, OF b]
  note bad = C6_recommendation_bands [of poorNutrition noOptions, THEN conjunct2,
                THEN conjunct2, THEN mp, OF c]
  have "hs_recommendation (calculateHealthScore sweetAndFat noOptions) =
       ''Fair choice. Watch out for sugar and fat content. Consider healthier alternatives when possible.''"
    using fair unfolding a0 a1 by simp
  moreover have "hs_recommendation (calculateHealthScore poorNutrition noOptions) =
       emoji_warn @ '' Not recommended for regular consumption. High in calories, sugar, fat, salt. Choose healthier alternatives.''"
    using bad unfolding c0 c1 by simp
  ultimately show ?thesis using a b c good by simp
qed

text \<open>
  C6 as the specification words it fails between 70 and 84: the record with 25g of sugar
  scores 79, its only penalty is the sugar penalty, and the recommendation does not
  mention sugar.
\<close>

theorem C6_counterexample:
  "55 \<le> hs_score (calculateHealthScore sweet noOptions)
   \<and> hs_score (calculateHealthScore sweet noOptions) \<le> 84
   \<and> map p_type (hs_penalties (calculateHealthScore sweet noOptions)) = [''sugar'']
   \<and> \<not> str_includes (hs_recommendation (calculateHealthScore sweet noOptions)) ''sugar''"
  by code_simp

section \<open>Properties of the diabetic warning engine\<close>

lemma severity_priorities:
  "sv_priority CRITICAL = 1" "sv_priority HIGH = 2" "sv_priority MODERATE = 3"
  "sv_priority LOW = 4" "sv_priority SAFE = 5"
  "sv_level CRITICAL = ''critical''" "sv_level HIGH = ''high''" "sv_level MODERATE = ''moderate''"
  "sv_level LOW = ''low''" "sv_level SAFE = ''safe''"
  by (simp_all add: CRITICAL_def HIGH_def MODERATE_def LOW_def SAFE_def)

lemmas warning_parts =
  sugarWarnings_def carbWarnings_def combinationWarnings_def calorieWarnings_def
  saltWarnings_def fiberPositives_def proteinPositives_def idealPositives_def
  type1Warnings_def

lemma part_levels:
  "w \<in> set (sugarWarnings n) \<Longrightarrow> (w_level w, w_priority w) \<in> set severityLevels"
  "w \<in> set (carbWarnings n) \<Longrightarrow> (w_level w, w_priority w) \<in> set severityLevels"
  "w \<in> set (combinationWarnings n) \<Longrightarrow> (w_level w, w_priority w) \<in> set severityLevels"
  "w \<in> set (calorieWarnings n) \<Longrightarrow> (w_level w, w_priority w) \<in> set severityLevels"
  "w \<in> set (saltWarnings n) \<Longrightarrow> (w_level w, w_priority w) \<in> set severityLevels"
  "w \<in> set (fiberPositives n) \<Longrightarrow> (w_level w, w_priority w) \<in> set severityLevels"
  "w \<in> set (proteinPositives n) \<Longrightarrow> (w_level w, w_priority w) \<in> set severityLevels"
  "w \<in> set (idealPositives n) \<Longrightarrow> (w_level w, w_priority w) \<in> set severityLevels"
  "w \<in> set (type1Warnings n t) \<Longrightarrow> (w_level w, w_priority w) \<in> set severityLevels"
  by (auto simp add: warning_parts w_level_def w_priority_def severity_priorities
        severityLevels_def split: if_splits)

lemma collected_levels:
  "w \<in> set (collectedWarnings n t) \<Longrightarrow> (w_level w, w_priority w) \<in> set severityLevels"
  unfolding collectedWarnings_def set_append Un_iff
  by (elim disjE) (rule part_levels, assumption)+

lemma sugarBand_sugarWarnings: "filter isSugarBand (sugarWarnings n) = sugarWarnings n"
  by (simp add: sugarWarnings_def isSugarBand_def)

lemma sugarBand_others:
  "filter isSugarBand (carbWarnings n) = []"
  "filter isSugarBand (combinationWarnings n) = []"
  "filter isSugarBand (calorieWarnings n) = []"
  "filter isSugarBand (saltWarnings n) = []"
  "filter isSugarBand (fiberPositives n) = []"
  "filter isSugarBand (proteinPositives n) = []"
  "filter isSugarBand (idealPositives n) = []"
  "filter isSugarBand (type1Warnings n t) = []"
  by (simp_all add: warning_parts isSugarBand_def)

lemma sugarBand_collected: "filter isSugarBand (collectedWarnings n t) = sugarWarnings n"
  by (simp add: collectedWarnings_def sugarBand_sugarWarnings sugarBand_others)

lemma length_sugarWarnings: "length (sugarWarnings n) \<le> 1"
  by (simp add: sugarWarnings_def)

lemma sort_key_short: "length xs \<le> 1 \<Longrightarrow> sort_key f xs = xs"
  by (cases xs) auto

lemma sugarBand_generate:
  "d_isDiabetic options = Some True \<Longrightarrow>
   filter isSugarBand (generateDiabeticWarnings nutr options) = sugarWarnings (diabeticValues nutr)"
  by (simp add: generateDiabeticWarnings_def orDefault_def Let_def filter_sort
        sugarBand_collected sort_key_short [OF length_sugarWarnings])

lemma dn_sugar_eq: "dn_sugar (diabeticValues nutr) = orZero (sugar nutr)"
  by (simp add: diabeticValues_def)

text \<open>
  C5. For a diabetic, the warnings hold exactly one entry of the sugar bands when sugar is
  above 20 (critical), in (15, 20] (high), in (10, 15] (moderate), in (5, 10] (low) and
  when it is at most 3 (safe); for sugar in (3, 5] they hold none.
\<close>

theorem C5_sugar_bands:
  assumes "d_isDiabetic options = Some True"
  shows "(20 < orZero (sugar nutr) \<longrightarrow>
           (\<exists>w. filter isSugarBand (generateDiabeticWarnings nutr options) = [w]
                \<and> w_type w = ''sugar_critical'' \<and> w_level w = ''critical''))
       \<and> (15 < orZero (sugar nutr) \<and> orZero (sugar nutr) \<le> 20 \<longrightarrow>
           (\<exists>w. filter isSugarBand (generateDiabeticWarnings nutr options) = [w]
                \<and> w_type w = ''sugar_high'' \<and> w_level w = ''high''))
       \<and> (10 < orZero (sugar nutr) \<and> orZero (sugar nutr) \<le> 15 \<longrightarrow>
           (\<exists>w. filter isSugarBand (generateDiabeticWarnings nutr options) = [w]
                \<and> w_type w = ''sugar_moderate'' \<and> w_level w = ''moderate''))
       \<and> (5 < orZero (sugar nutr) \<and> orZero (sugar nutr) \<le> 10 \<longrightarrow>
           (\<exists>w. filter isSugarBand (generateDiabeticWarnings nutr options) = [w]
                \<and> w_type w = ''sugar_low'' \<and> w_level w = ''low''))
       \<and> (orZero (sugar nutr) \<le> 3 \<longrightarrow>
           (\<exists>w. filter isSugarBand (generateDiabeticWarnings nutr options) = [w]
                \<and> w_type w = ''sugar_safe'' \<and> w_level w = ''safe''))
       \<and> (3 < orZero (sugar nutr) \<and> orZero (sugar nutr) \<le> 5 \<longrightarrow>
           filter isSugarBand (generateDiabeticWarnings nutr options) = [])"
  unfolding sugarBand_generate [OF assms]
  by (simp add: sugarWarnings_def dn_sugar_eq w_level_def severity_priorities)

theorem C5_sugar_bands_witness:
  "map w_type (filter isSugarBand (generateDiabeticWarnings (sugarOnly 25) diabeticType2))
     = [''sugar_critical'']
   \<and> map w_type (filter isSugarBand (generateDiabeticWarnings (sugarOnly 20) diabeticType2))
     = [''sugar_high'']
   \<and> map w_type (filter isSugarBand (generateDiabeticWarnings (sugarOnly 12) diabeticType2))
     = [''sugar_moderate'']
   \<and> map w_type (filter isSugarBand (generateDiabeticWarnings (sugarOnly 8) diabeticType2))
     = [''sugar_low'']
   \<and> map w_type (filter isSugarBand (generateDiabeticWarnings (sugarOnly 3) diabeticType2))
     = [''sugar_safe'']
   \<and> filter isSugarBand (generateDiabeticWarnings (sugarOnly 4) diabeticType2) = []"
proof -
  have d: "d_isDiabetic diabeticType2 = Some True"
    by (simp add: diabeticType2_def)
  have s: "\<And>k. orZero (sugar (sugarOnly k)) = k"
    by (simp add: sugarOnly_def noNutrition_def orZero_def)
  have "map w_type (filter isSugarBand (generateDiabeticWarnings (sugarOnly 25) diabeticType2))
     = [''sugar_critical'']"
    using C5_sugar_bands [where options = diabeticType2 and nutr = "sugarOnly 25", OF d]
    by (auto simp add: s)
  moreover
  have "map w_type (filter isSugarBand (generateDiabeticWarnings (sugarOnly 20) diabeticType2))
     = [''sugar_high'']"
    using C5_sugar_bands [where options = diabeticType2 and nutr = "sugarOnly 20", OF d]
    by (auto simp add: s)
  moreover
  have "map w_type (filter isSugarBand (generateDiabeticWarnings (sugarOnly 12) diabeticType2))
     = [''sugar_moderate'']"
    using C5_sugar_bands [where options = diabeticType2 and nutr = "sugarOnly 12", OF d]
    by (auto simp add: s)
  moreover
  have "map w_type (filter isSugarBand (generateDiabeticWarnings (sugarOnly 8) diabeticType2))
     = [''sugar_low'']"
    using C5_sugar_bands [where options = diabeticType2 and nutr = "sugarOnly 8", OF d]
    by (auto simp add: s)
  moreover
  have "map w_type (filter isSugarBand (generateDiabeticWarnings (sugarOnly 3) diabeticType2))
     = [''sugar_safe'']"
    using C5_sugar_bands [where options = diabeticType2 and nutr = "sugarOnly 3", OF d]
    by (auto simp add: s)
  moreover
  have "filter isSugarBand (generateDiabeticWarnings (sugarOnly 4) diabeticType2) = []"
    using C5_sugar_bands [where options = diabeticType2 and nutr = "sugarOnly 4", OF d]
    by (auto simp add: s)
  ultimately show ?thesis by blast
qed

text \<open>
  C3. The list returned by \<open>generateDiabeticWarnings\<close> is sorted ascending by priority:
  each entry's priority is at most that of the next. The sort is stable: for every
  priority, the entries of that priority appear in the order in which they were pushed.
  The priorities are those of the five levels, critical = 1 to safe = 5.
\<close>

theorem C3_sorted_by_priority:
  "(\<forall>i. i + 1 < length (generateDiabeticWarnings nutr options) \<longrightarrow>
         w_priority (generateDiabeticWarnings nutr options ! i)
           \<le> w_priority (generateDiabeticWarnings nutr options ! (i + 1)))
   \<and> (\<forall>k. filter (\<lambda>w. w_priority w = k) (generateDiabeticWarnings nutr options)
           = filter (\<lambda>w. w_priority w = k)
               (if orDefault (d_isDiabetic options) False
                then collectedWarnings (diabeticValues nutr)
                       (orDefault (d_diabeticType options) ''type2'')
                else []))
   \<and> (\<forall>w \<in> set (generateDiabeticWarnings nutr options).
         (w_level w, w_priority w) \<in> set severityLevels)"
proof (intro conjI allI impI ballI)
  fix i
  assume i: "i + 1 < length (generateDiabeticWarnings nutr options)"
  have "sorted (map w_priority (generateDiabeticWarnings nutr options))"
    by (simp add: generateDiabeticWarnings_def Let_def)
  then have "map w_priority (generateDiabeticWarnings nutr options) ! i
               \<le> map w_priority (generateDiabeticWarnings nutr options) ! (i + 1)"
    using i by (intro sorted_nth_mono) simp_all
  then show "w_priority (generateDiabeticWarnings nutr options ! i)
           \<le> w_priority (generateDiabeticWarnings nutr options ! (i + 1))"
    using i by simp
next
  fix k
  show "filter (\<lambda>w. w_priority w = k) (generateDiabeticWarnings nutr options)
           = filter (\<lambda>w. w_priority w = k)
               (if orDefault (d_isDiabetic options) False
                then collectedWarnings (diabeticValues nutr)
                       (orDefault (d_diabeticType options) ''type2'')
                else [])"
    by (simp add: generateDiabeticWarnings_def Let_def sort_key_stable)
next
  fix w
  assume "w \<in> set (generateDiabeticWarnings nutr options)"
  then show "(w_level w, w_priority w) \<in> set severityLevels"
    by (auto simp add: generateDiabeticWarnings_def Let_def collected_levels split: if_splits)
qed

theorem C3_sorted_by_priority_witness:
  "0 + 1 < length (generateDiabeticWarnings verySweet diabeticType1)
   \<and> w_priority (generateDiabeticWarnings verySweet diabeticType1 ! 0)
       \<le> w_priority (generateDiabeticWarnings verySweet diabeticType1 ! (0 + 1))
   \<and> map w_type (collectedWarnings (diabeticValues verySweet) ''type1'')
       = [''sugar_critical'', ''carb_high'', ''combination_danger'', ''type1_specific'']
   \<and> map w_type (generateDiabeticWarnings verySweet diabeticType1)
       = [''sugar_critical'', ''combination_danger'', ''carb_high'', ''type1_specific'']
   \<and> map w_priority (generateDiabeticWarnings verySweet diabeticType1) = [1, 1, 2, 2]"
proof -
  have len: "0 + 1 < length (generateDiabeticWarnings verySweet diabeticType1)"
    by code_simp
  have "\<forall>i. i + 1 < length (generateDiabeticWarnings verySweet diabeticType1) \<longrightarrow>
         w_priority (generateDiabeticWarnings verySweet diabeticType1 ! i)
           \<le> w_priority (generateDiabeticWarnings verySweet diabeticType1 ! (i + 1))"
    using C3_sorted_by_priority [of verySweet diabeticType1] by (rule conjunct1)
  with len have "w_priority (generateDiabeticWarnings verySweet diabeticType1 ! 0)
       \<le> w_priority (generateDiabeticWarnings verySweet diabeticType1 ! (0 + 1))"
    by blast
  moreover
  have "map w_type (collectedWarnings (diabeticValues verySweet) ''type1'')
       = [''sugar_critical'', ''carb_high'', ''combination_danger'', ''type1_specific'']"
    by code_simp
  moreover
  have "map w_type (generateDiabeticWarnings verySweet diabeticType1)
       = [''sugar_critical'', ''combination_danger'', ''carb_high'', ''type1_specific'']"
    by code_simp
  moreover
  have "map w_priority (generateDiabeticWarnings verySweet diabeticType1) = [1, 1, 2, 2]"
    by code_simp
  ultimately show ?thesis using len by blast
qed

text \<open>
  C8. When \<open>isDiabetic\<close> is false or absent, \<open>generateDiabeticWarnings\<close> returns the
  empty list, whatever the nutrition record holds.
\<close>

theorem C8_not_diabetic_empty:
  assumes "d_isDiabetic options = Some False \<or> d_isDiabetic options = None"
  shows "generateDiabeticWarnings nutr options = []"
  using assms by (auto simp add: generateDiabeticWarnings_def orDefault_def)


theorem C8_not_diabetic_empty_witness:
  "(d_isDiabetic notDiabetic = Some False \<or> d_isDiabetic notDiabetic = None)
   \<and> generateDiabeticWarnings verySweet notDiabetic = []
   \<and> (d_isDiabetic noDiabeticOptions = Some False \<or> d_isDiabetic noDiabeticOptions = None)
   \<and> generateDiabeticWarnings verySweet noDiabeticOptions = []"
proof -
  have a: "d_isDiabetic notDiabetic = Some False \<or> d_isDiabetic notDiabetic = None"
    by (simp add: notDiabetic_def)
  have b: "d_isDiabetic noDiabeticOptions = Some False \<or> d_isDiabetic noDiabeticOptions = None"
    by (simp add: noDiabeticOptions_def)
  show ?thesis
    using a b C8_not_diabetic_empty [OF a, of verySweet] C8_not_diabetic_empty [OF b, of verySweet]
    by blast
qed

lemma set_generate:
  "set (generateDiabeticWarnings nutr options)
     = (if orDefault (d_isDiabetic options) False
        then set (collectedWarnings (diabeticValues nutr)
                    (orDefault (d_diabeticType options) ''type2''))
        else {})"
  by (simp add: generateDiabeticWarnings_def Let_def)

lemma dn_carbs_absent:
  "carbs nutr = None \<or> carbs nutr = Some 0 \<Longrightarrow> dn_carbs (diabeticValues nutr) = orZero (sugar nutr)"
  by (auto simp add: diabeticValues_def orElse_def)

lemma carb_high_parts:
  "(\<exists>w \<in> set (sugarWarnings n). w_type w = ''carb_high'') = False"
  "(\<exists>w \<in> set (carbWarnings n). w_type w = ''carb_high'') = (50 < dn_carbs n)"
  "(\<exists>w \<in> set (combinationWarnings n). w_type w = ''carb_high'') = False"
  "(\<exists>w \<in> set (calorieWarnings n). w_type w = ''carb_high'') = False"
  "(\<exists>w \<in> set (saltWarnings n). w_type w = ''carb_high'') = False"
  "(\<exists>w \<in> set (fiberPositives n). w_type w = ''carb_high'') = False"
  "(\<exists>w \<in> set (proteinPositives n). w_type w = ''carb_high'') = False"
  "(\<exists>w \<in> set (idealPositives n). w_type w = ''carb_high'') = False"
  "(\<exists>w \<in> set (type1Warnings n t). w_type w = ''carb_high'') = False"
  by (simp_all add: warning_parts)

lemma carb_high_collected:
  "(\<exists>w \<in> set (collectedWarnings n t). w_type w = ''carb_high'') = (50 < dn_carbs n)"
  unfolding collectedWarnings_def set_append bex_Un carb_high_parts by simp

lemma type1_parts:
  "w \<in> set (sugarWarnings n) \<Longrightarrow> w_type w \<noteq> ''type1_specific''"
  "w \<in> set (carbWarnings n) \<Longrightarrow> w_type w \<noteq> ''type1_specific''"
  "w \<in> set (combinationWarnings n) \<Longrightarrow> w_type w \<noteq> ''type1_specific''"
  "w \<in> set (calorieWarnings n) \<Longrightarrow> w_type w \<noteq> ''type1_specific''"
  "w \<in> set (saltWarnings n) \<Longrightarrow> w_type w \<noteq> ''type1_specific''"
  "w \<in> set (fiberPositives n) \<Longrightarrow> w_type w \<noteq> ''type1_specific''"
  "w \<in> set (proteinPositives n) \<Longrightarrow> w_type w \<noteq> ''type1_specific''"
  "w \<in> set (idealPositives n) \<Longrightarrow> w_type w \<noteq> ''type1_specific''"
  by (auto simp add: warning_parts split: if_splits)

lemma type1_detail:
  "w \<in> set (type1Warnings n t) \<Longrightarrow>
   w_detail w = [Lit ''Estimated carbs: '', Fixed 0 (dn_carbs n),
                 Lit ''g - Consult carb counting guide'']"
  by (auto simp add: type1Warnings_def split: if_splits)

lemma type1_collected:
  assumes "w \<in> set (collectedWarnings n t)" and "w_type w = ''type1_specific''"
  shows "w_detail w = [Lit ''Estimated carbs: '', Fixed 0 (dn_carbs n),
                       Lit ''g - Consult carb counting guide'']"
  using assms(1) unfolding collectedWarnings_def set_append Un_iff
  using type1_parts [of w n] type1_detail [of w n t] assms(2) by blast

text \<open>
  C9, as the code has it. When the record's \<open>carbs\<close> field is absent or 0, the
  carbohydrate value is the sugar value; the high-carbohydrate warning is then present in
  the returned list exactly when the user is diabetic and sugar exceeds 50, and a Type 1
  entry of the list reports the sugar value as the estimated carbs.
\<close>

theorem C9_carbs_from_sugar:
  assumes "carbs nutr = None \<or> carbs nutr = Some 0"
  shows "dn_carbs (diabeticValues nutr) = orZero (sugar nutr)
       \<and> ((\<exists>w \<in> set (generateDiabeticWarnings nutr options). w_type w = ''carb_high'')
            \<longleftrightarrow> orDefault (d_isDiabetic options) False \<and> 50 < orZero (sugar nutr))
       \<and> (\<forall>w \<in> set (generateDiabeticWarnings nutr options).
            w_type w = ''type1_specific'' \<longrightarrow>
            w_detail w = [Lit ''Estimated carbs: '', Fixed 0 (orZero (sugar nutr)),
                          Lit ''g - Consult carb counting guide''])"
proof (cases "orDefault (d_isDiabetic options) False")
  case True
  then show ?thesis
    unfolding set_generate
    using type1_collected [of _ "diabeticValues nutr"]
    by (simp add: carb_high_collected dn_carbs_absent [OF assms])
next
  case False
  then show ?thesis
    unfolding set_generate
    by (simp add: dn_carbs_absent [OF assms])
qed

theorem C9_carbs_from_sugar_witness:
  "(carbs verySweet = None \<or> carbs verySweet = Some 0)
   \<and> d_isDiabetic diabeticType1 = Some True
   \<and> 50 < orZero (sugar verySweet)
   \<and> dn_carbs (diabeticValues verySweet) = 60
   \<and> ''carb_high'' \<in> set (map w_type (generateDiabeticWarnings verySweet diabeticType1))
   \<and> map w_detail (filter (\<lambda>w. w_type w = ''type1_specific'')
                      (generateDiabeticWarnings verySweet diabeticType1))
       = [[Lit ''Estimated carbs: '', Fixed 0 60, Lit ''g - Consult carb counting guide'']]
   \<and> (carbs (sweetAndFat\<lparr>carbs := Some 0\<rparr>) = None \<or> carbs (sweetAndFat\<lparr>carbs := Some 0\<rparr>) = Some 0)
   \<and> \<not> 50 < orZero (sugar (sweetAndFat\<lparr>carbs := Some 0\<rparr>))
   \<and> ''carb_high'' \<notin> set (map w_type (generateDiabeticWarnings (sweetAndFat\<lparr>carbs := Some 0\<rparr>)
                                          diabeticType1))
   \<and> ''carb_high'' \<notin> set (map w_type (generateDiabeticWarnings verySweet notDiabetic))"
proof -
  have a: "carbs verySweet = None \<or> carbs verySweet = Some 0"
    by (simp add: verySweet_def noNutrition_def)
  have a': "carbs (sweetAndFat\<lparr>carbs := Some 0\<rparr>) = None \<or> carbs (sweetAndFat\<lparr>carbs := Some 0\<rparr>) = Some 0"
    by simp
  have d: "d_isDiabetic diabeticType1 = Some True"
    by (simp add: diabeticType1_def)
  have d1: "orDefault (d_isDiabetic diabeticType1) False = True"
    by (simp add: diabeticType1_def orDefault_def)
  have d0: "orDefault (d_isDiabetic notDiabetic) False = False"
    by (simp add: notDiabetic_def orDefault_def)
  have s: "orZero (sugar verySweet) = 60"
    by (simp add: verySweet_def noNutrition_def orZero_def)
  have s': "orZero (sugar (sweetAndFat\<lparr>carbs := Some 0\<rparr>)) = 20"
    by (simp add: sweetAndFat_def noNutrition_def orZero_def)
  have t: "map w_type (filter (\<lambda>w. w_type w = ''type1_specific'')
                      (generateDiabeticWarnings verySweet diabeticType1)) = [''type1_specific'']"
    by code_simp
  note big = C9_carbs_from_sugar [OF a, of diabeticType1]
  note small = C9_carbs_from_sugar [OF a', of diabeticType1]
  note off = C9_carbs_from_sugar [OF a, of notDiabetic]
  have "dn_carbs (diabeticValues verySweet) = 60"
    using big s by simp
  moreover have "''carb_high'' \<in> set (map w_type (generateDiabeticWarnings verySweet diabeticType1))"
  proof -
    have "\<exists>w \<in> set (generateDiabeticWarnings verySweet diabeticType1). w_type w = ''carb_high''"
      using big s d1 by simp
    then show ?thesis by force
  qed
  moreover have "''carb_high'' \<notin> set (map w_type (generateDiabeticWarnings (sweetAndFat\<lparr>carbs := Some 0\<rparr>)
                                          diabeticType1))"
  proof -
    have "\<not> (\<exists>w \<in> set (generateDiabeticWarnings (sweetAndFat\<lparr>carbs := Some 0\<rparr>) diabeticType1).
               w_type w = ''carb_high'')"
      using small s' by simp
    then show ?thesis by force
  qed
  moreover have "''carb_high'' \<notin> set (map w_type (generateDiabeticWarnings verySweet notDiabetic))"
  proof -
    have "\<not> (\<exists>w \<in> set (generateDiabeticWarnings verySweet notDiabetic). w_type w = ''carb_high'')"
      using off d0 by simp
    then show ?thesis by force
  qed
  moreover have "map w_detail (filter (\<lambda>w. w_type w = ''type1_specific'')
                      (generateDiabeticWarnings verySweet diabeticType1))
       = [[Lit ''Estimated carbs: '', Fixed 0 60, Lit ''g - Consult carb counting guide'']]"
  proof -
    from t obtain w where w: "filter (\<lambda>w. w_type w = ''type1_specific'')
                      (generateDiabeticWarnings verySweet diabeticType1) = [w]"
      by auto
    then have "w \<in> set (filter (\<lambda>w. w_type w = ''type1_specific'')
                      (generateDiabeticWarnings verySweet diabeticType1))"
      by simp
    then have "w \<in> set (generateDiabeticWarnings verySweet diabeticType1)"
      and "w_type w = ''type1_specific''"
      by simp_all
    with big s have "w_detail w = [Lit ''Estimated carbs: '', Fixed 0 60,
                                   Lit ''g - Consult carb counting guide'']"
      by auto
    with w show ?thesis by simp
  qed
  ultimately show ?thesis using a a' d s s' by simp
qed

text \<open>
  C9 as the claim words it, for every such record, fails for a user who is not diabetic:
  the record with 60g of sugar and no \<open>carbs\<close> field has sugar above 50, and the
  returned list is empty, so the high-carbohydrate warning is not in it.
\<close>

theorem C9_counterexample:
  "carbs verySweet = None
   \<and> 50 < orZero (sugar verySweet)
   \<and> generateDiabeticWarnings verySweet notDiabetic = []
   \<and> ''carb_high'' \<notin> set (map w_type (generateDiabeticWarnings verySweet notDiabetic))"
  by code_simp

text \<open>
  C10. With \<open>isDiabetic\<close> false, \<open>assessDiabeticRisk\<close> returns the object with risk
  \<open>not_applicable\<close> and score 0 and nothing else, whatever the nutrition record holds;
  one of the five risk labels (and a recommendation) is returned exactly when
  \<open>isDiabetic\<close> is true.
\<close>

theorem C10_risk_not_applicable:
  "assessDiabeticRisk nutr False =
     \<lparr> ra_risk = ''not_applicable'', ra_score = 0, ra_recommendation = None,
       ra_severity = None \<rparr>
   \<and> (ra_risk (assessDiabeticRisk nutr b) \<in> set riskLabels \<longleftrightarrow> b)
   \<and> (ra_recommendation (assessDiabeticRisk nutr b) \<noteq> None \<longleftrightarrow> b)"
  by (simp add: assessDiabeticRisk_def riskLabels_def Let_def split: prod.splits)


theorem C10_risk_not_applicable_witness:
  "ra_risk (assessDiabeticRisk verySweet False) = ''not_applicable''
   \<and> ra_score (assessDiabeticRisk verySweet False) = 0
   \<and> ra_risk (assessDiabeticRisk verySweet True) \<in> set riskLabels
   \<and> ra_risk (assessDiabeticRisk verySweet True) = ''critical''
   \<and> ra_score (assessDiabeticRisk verySweet True) = 80"
proof -
  have "ra_risk (assessDiabeticRisk verySweet True) = ''critical''
        \<and> ra_score (assessDiabeticRisk verySweet True) = 80"
    by code_simp
  then show ?thesis
    using C10_risk_not_applicable [of verySweet True] by simp
qed

section \<open>Properties of the daily value engine\<close>

lemma dvReference_cases:
  "dvReferenceOf options \<in> {dv_male, dv_female, dv_pregnant, dv_athlete_male, dv_athlete_female, []}"
  by (simp add: dvReferenceOf_def DAILY_VALUES_def DAILY_VALUES_athlete_def Let_def
        split: option.splits)

lemma target_pos_tables:
  "0 < targetOf dv_male nutrient" "0 < targetOf dv_female nutrient"
  "0 < targetOf dv_pregnant nutrient" "0 < targetOf dv_athlete_male nutrient"
  "0 < targetOf dv_athlete_female nutrient" "0 < targetOf [] nutrient"
  by (simp_all add: targetOf_def orElse_def dv_male_def dv_female_def dv_pregnant_def
        dv_athlete_male_def dv_athlete_female_def)

lemma target_pos: "0 < targetOf (dvReferenceOf options) nutrient"
  using dvReference_cases [of options] target_pos_tables [of nutrient] by auto

lemma percentage_mono:
  assumes "v1 \<le> v2" and "0 < t"
  shows "Math_round ((v1 / t) * 100) \<le> Math_round ((v2 / t) * 100)"
proof -
  from assms have "v1 / t \<le> v2 / t" by (simp add: divide_right_mono)
  then have "(v1 / t) * 100 \<le> (v2 / t) * 100" by (rule mult_right_mono) simp
  then have "(v1 / t) * 100 + 1 / 2 \<le> (v2 / t) * 100 + 1 / 2" by (rule add_right_mono)
  then show ?thesis unfolding Math_round_def by (rule floor_mono)
qed

lemma benefit_mono:
  "p1 \<le> p2 \<Longrightarrow> isPositive nutrient \<Longrightarrow>
   benefitRank (c_name (categorizeDailyValue p1 nutrient))
     \<le> benefitRank (c_name (categorizeDailyValue p2 nutrient))"
  by (simp add: categorizeDailyValue_def benefitRank_def)

lemma severity_mono:
  "p1 \<le> p2 \<Longrightarrow> \<not> isPositive nutrient \<Longrightarrow>
   severityRank (c_name (categorizeDailyValue p1 nutrient))
     \<le> severityRank (c_name (categorizeDailyValue p2 nutrient))"
  by (simp add: categorizeDailyValue_def severityRank_def)

lemma benefit_names:
  "isPositive nutrient \<Longrightarrow>
   c_name (categorizeDailyValue p nutrient) \<in> set [''Low'', ''Moderate'', ''High'', ''Excellent'']"
  by (simp add: categorizeDailyValue_def)

lemma severity_names:
  "\<not> isPositive nutrient \<Longrightarrow>
   c_name (categorizeDailyValue p nutrient)
     \<in> set [''Very Low'', ''Low'', ''Moderate'', ''High'', ''Very High'']"
  by (simp add: categorizeDailyValue_def)

lemma dvr_category_eq:
  "dvr_category (calculateDailyValue v nutrient options) =
     c_name (categorizeDailyValue
               (Math_round ((v / targetOf (dvReferenceOf options) nutrient) * 100)) nutrient)"
  by (simp add: calculateDailyValue_def Let_def)

text \<open>
  C7. For fixed options, the category of a nutrient is monotone in its value: a larger
  protein or fiber value never has a lower rank in Low < Moderate < High < Excellent, and
  a larger sugar, fat, salt or calories value never has a lower rank in Very Low < Low <
  Moderate < High < Very High. The categories are always among those names.
\<close>

theorem C7_category_monotone:
  assumes "v1 \<le> v2"
  shows "(nutrient \<in> set [''protein'', ''fiber''] \<longrightarrow>
            benefitRank (dvr_category (calculateDailyValue v1 nutrient options))
              \<le> benefitRank (dvr_category (calculateDailyValue v2 nutrient options))
            \<and> dvr_category (calculateDailyValue v1 nutrient options)
                \<in> set [''Low'', ''Moderate'', ''High'', ''Excellent''])
       \<and> (nutrient \<in> set [''sugar'', ''fat'', ''salt'', ''calories''] \<longrightarrow>
            severityRank (dvr_category (calculateDailyValue v1 nutrient options))
              \<le> severityRank (dvr_category (calculateDailyValue v2 nutrient options))
            \<and> dvr_category (calculateDailyValue v1 nutrient options)
                \<in> set [''Very Low'', ''Low'', ''Moderate'', ''High'', ''Very High''])"
proof (intro conjI impI)
  note pm = percentage_mono [OF assms target_pos [of options nutrient]]
  {
    assume "nutrient \<in> set [''protein'', ''fiber'']"
    then have pos: "isPositive nutrient" by (simp add: isPositive_def)
    show "benefitRank (dvr_category (calculateDailyValue v1 nutrient options))
              \<le> benefitRank (dvr_category (calculateDailyValue v2 nutrient options))"
      unfolding dvr_category_eq using pm pos by (rule benefit_mono)
    show "dvr_category (calculateDailyValue v1 nutrient options)
                \<in> set [''Low'', ''Moderate'', ''High'', ''Excellent'']"
      unfolding dvr_category_eq using pos by (rule benefit_names)
  }
  {
    assume "nutrient \<in> set [''sugar'', ''fat'', ''salt'', ''calories'']"
    then have neg: "\<not> isPositive nutrient" by (auto simp add: isPositive_def)
    show "severityRank (dvr_category (calculateDailyValue v1 nutrient options))
              \<le> severityRank (dvr_category (calculateDailyValue v2 nutrient options))"
      unfolding dvr_category_eq using pm neg by (rule severity_mono)
    show "dvr_category (calculateDailyValue v1 nutrient options)
                \<in> set [''Very Low'', ''Low'', ''Moderate'', ''High'', ''Very High'']"
      unfolding dvr_category_eq using neg by (rule severity_names)
  }
qed

theorem C7_category_monotone_witness:
  "(5::num) \<le> 10
   \<and> ''protein'' \<in> set [''protein'', ''fiber'']
   \<and> dvr_category (calculateDailyValue 5 ''protein'' femaleStandard) = ''Moderate''
   \<and> dvr_category (calculateDailyValue 10 ''protein'' femaleStandard) = ''High''
   \<and> benefitRank (dvr_category (calculateDailyValue 5 ''protein'' femaleStandard))
       \<le> benefitRank (dvr_category (calculateDailyValue 10 ''protein'' femaleStandard))
   \<and> ''sugar'' \<in> set [''sugar'', ''fat'', ''salt'', ''calories'']
   \<and> dvr_category (calculateDailyValue 5 ''sugar'' femaleStandard) = ''Moderate''
   \<and> dvr_category (calculateDailyValue 10 ''sugar'' femaleStandard) = ''High''
   \<and> severityRank (dvr_category (calculateDailyValue 5 ''sugar'' femaleStandard))
       \<le> severityRank (dvr_category (calculateDailyValue 10 ''sugar'' femaleStandard))"
proof -
  have le: "(5::num) \<le> 10" by simp
  have p: "''protein'' \<in> set [''protein'', ''fiber'']" by simp
  have q: "''sugar'' \<in> set [''sugar'', ''fat'', ''salt'', ''calories'']" by simp
  have v: "dvr_category (calculateDailyValue 5 ''protein'' femaleStandard) = ''Moderate''"
    "dvr_category (calculateDailyValue 10 ''protein'' femaleStandard) = ''High''"
    "dvr_category (calculateDailyValue 5 ''sugar'' femaleStandard) = ''Moderate''"
    "dvr_category (calculateDailyValue 10 ''sugar'' femaleStandard) = ''High''"
    by code_simp+
  have "benefitRank (dvr_category (calculateDailyValue 5 ''protein'' femaleStandard))
       \<le> benefitRank (dvr_category (calculateDailyValue 10 ''protein'' femaleStandard))"
    using C7_category_monotone [OF le, of "''protein''" femaleStandard] p by blast
  moreover
  have "severityRank (dvr_category (calculateDailyValue 5 ''sugar'' femaleStandard))
       \<le> severityRank (dvr_category (calculateDailyValue 10 ''sugar'' femaleStandard))"
    using C7_category_monotone [OF le, of "''sugar''" femaleStandard] q by blast
  ultimately show ?thesis using le p q v by blast
qed

section \<open>Properties of the population food evaluator\<close>

lemma str_includes_sublist: "str_includes s t = sublist t s"
  by (induction s) (simp_all add: sublist_Cons_right)

lemma str_includes_lower:
  assumes "str_includes s t"
  shows "str_includes (toLowerCase s) (toLowerCase t)"
proof -
  from assms obtain p q where "s = p @ t @ q"
    by (auto simp add: str_includes_sublist sublist_def)
  then have "toLowerCase s = toLowerCase p @ toLowerCase t @ toLowerCase q"
    by (simp add: toLowerCase_def)
  then show ?thesis
    unfolding str_includes_sublist sublist_def by blast
qed

lemma scanAvoided_found:
  assumes "t \<in> set avoidList"
    and "str_includes ing (toLowerCase t) \<or> str_includes nm (toLowerCase t)"
  shows "\<exists>a \<in> set avoidList.
           (str_includes ing (toLowerCase a) \<or> str_includes nm (toLowerCase a))
           \<and> sc_isViolated (scanAvoided ing nm g avoidList)
           \<and> str (sc_message (scanAvoided ing nm g avoidList)) = denylistMessage g a
           \<and> str (sc_explanation (scanAvoided ing nm g avoidList)) = denylistExplanation g"
  using assms
proof (induction avoidList)
  case Nil
  then show ?case by simp
next
  case (Cons a rest)
  show ?case
  proof (cases "str_includes ing (toLowerCase a) \<or> str_includes nm (toLowerCase a)")
    case True
    then show ?thesis
      by (simp add: Let_def denylistMessage_def denylistExplanation_def)
  next
    case False
    with Cons.prems have "t \<in> set rest" by auto
    from Cons.IH [OF this Cons.prems(2)] False show ?thesis
      by (simp add: Let_def)
  qed
qed

lemma evaluate_strict:
  assumes "targetGroup = ''pregnant'' \<or> targetGroup = ''child''"
    and "sc_isViolated (checkStrictlyAvoided productData targetGroup
            (if targetGroup = ''pregnant'' then PREGNANT_LIMITS else CHILD_LIMITS))"
  shows "evaluateFoodForPopulation (Some nutr) targetGroup productData =
           createAvoidResult targetGroup
             [str (sc_message (checkStrictlyAvoided productData targetGroup
                (if targetGroup = ''pregnant'' then PREGNANT_LIMITS else CHILD_LIMITS)))]
             (str (sc_explanation (checkStrictlyAvoided productData targetGroup
                (if targetGroup = ''pregnant'' then PREGNANT_LIMITS else CHILD_LIMITS))))"
  using assms unfolding evaluateFoodForPopulation_def Let_def
  by auto

text \<open>
  C4. For every nutrition record and every product whose ingredients text or name
  contains (case-insensitively) a term of the target group's denylist, \<open>evaluateFoodForPopulation\<close> returns the avoid result: suitability
  Avoid, severity score 100, no positives, and a single warning, the denylist message of a
  term of the list that the text contains. The nutrition values play no part.
\<close>

theorem C4_denylist_short_circuit:
  assumes "t \<in> set (denylist targetGroup)"
    and "str_includes (toLowerCase (orEmpty (pd_ingredients productData))) (toLowerCase t)
         \<or> str_includes (toLowerCase (orEmpty (pd_name productData))) (toLowerCase t)"
  shows "\<exists>a \<in> set (denylist targetGroup).
           evaluateFoodForPopulation (Some nutr) targetGroup productData =
             createAvoidResult targetGroup [denylistMessage targetGroup a]
               (denylistExplanation targetGroup)
           \<and> ev_suitability (evaluateFoodForPopulation (Some nutr) targetGroup productData) = ''Avoid''
           \<and> ev_severityScore (evaluateFoodForPopulation (Some nutr) targetGroup productData) = Some 100
           \<and> ev_warnings (evaluateFoodForPopulation (Some nutr) targetGroup productData)
               = [denylistMessage targetGroup a]
           \<and> ev_positives (evaluateFoodForPopulation (Some nutr) targetGroup productData) = []
           \<and> (str_includes (toLowerCase (orEmpty (pd_ingredients productData))) (toLowerCase a)
                \<or> str_includes (toLowerCase (orEmpty (pd_name productData))) (toLowerCase a))"
proof -
  let ?lm = "if targetGroup = ''pregnant'' then PREGNANT_LIMITS else CHILD_LIMITS"
  let ?chk = "checkStrictlyAvoided productData targetGroup ?lm"
  have grp: "targetGroup = ''pregnant'' \<or> targetGroup = ''child''"
    by (rule ccontr) (use assms(1) in \<open>simp add: denylist_def avoidListOf_def\<close>)
  from scanAvoided_found [OF assms(1) assms(2), of targetGroup]
  obtain a where a: "a \<in> set (denylist targetGroup)" "sc_isViolated ?chk"
      "str (sc_message ?chk) = denylistMessage targetGroup a"
      "str (sc_explanation ?chk) = denylistExplanation targetGroup"
      "str_includes (toLowerCase (orEmpty (pd_ingredients productData))) (toLowerCase a)
       \<or> str_includes (toLowerCase (orEmpty (pd_name productData))) (toLowerCase a)"
    unfolding checkStrictlyAvoided_def Let_def denylist_def by blast
  have "evaluateFoodForPopulation (Some nutr) targetGroup productData =
          createAvoidResult targetGroup [denylistMessage targetGroup a]
            (denylistExplanation targetGroup)"
    using evaluate_strict [OF grp a(2), of nutr] a(3,4) by simp
  then show ?thesis using a(1) a(5) by (auto simp add: createAvoidResult_def)
qed


theorem C4_denylist_short_circuit_witness:
  "''wine'' \<in> set (denylist ''pregnant'')
   \<and> str_includes (toLowerCase (orEmpty (pd_ingredients wineSauce))) (toLowerCase ''wine'')
   \<and> evaluateFoodForPopulation (Some sweet) ''pregnant'' wineSauce
       = createAvoidResult ''pregnant'' [denylistMessage ''pregnant'' ''wine'']
           (denylistExplanation ''pregnant'')
   \<and> ev_suitability (evaluateFoodForPopulation (Some sweet) ''pregnant'' wineSauce) = ''Avoid''
   \<and> ev_severityScore (evaluateFoodForPopulation (Some sweet) ''pregnant'' wineSauce) = Some 100
   \<and> ev_positives (evaluateFoodForPopulation (Some sweet) ''pregnant'' wineSauce) = []
   \<and> ''popcorn'' \<in> set (denylist ''child'')
   \<and> str_includes (toLowerCase (orEmpty (pd_name popcornSnack))) (toLowerCase ''popcorn'')
   \<and> ev_suitability (evaluateFoodForPopulation (Some unsweet) ''child'' popcornSnack) = ''Avoid''
   \<and> ev_severityScore (evaluateFoodForPopulation (Some unsweet) ''child'' popcornSnack) = Some 100
   \<and> ev_positives (evaluateFoodForPopulation (Some unsweet) ''child'' popcornSnack) = []"
proof -
  have m: "''wine'' \<in> set (denylist ''pregnant'')" by code_simp
  have m': "''popcorn'' \<in> set (denylist ''child'')" by code_simp
  have i: "str_includes (toLowerCase (orEmpty (pd_ingredients wineSauce))) (toLowerCase ''wine'')"
    by code_simp
  have i': "str_includes (toLowerCase (orEmpty (pd_name popcornSnack))) (toLowerCase ''popcorn'')"
    by code_simp
  have e: "evaluateFoodForPopulation (Some sweet) ''pregnant'' wineSauce
       = createAvoidResult ''pregnant'' [denylistMessage ''pregnant'' ''wine'']
           (denylistExplanation ''pregnant'')"
    by code_simp
  note w = C4_denylist_short_circuit [OF m disjI1 [OF i], of sweet]
  note p = C4_denylist_short_circuit [OF m' disjI2 [OF i'], of unsweet]
  have "ev_suitability (evaluateFoodForPopulation (Some sweet) ''pregnant'' wineSauce) = ''Avoid''
   \<and> ev_severityScore (evaluateFoodForPopulation (Some sweet) ''pregnant'' wineSauce) = Some 100
   \<and> ev_positives (evaluateFoodForPopulation (Some sweet) ''pregnant'' wineSauce) = []"
    using w by blast
  moreover
  have "ev_suitability (evaluateFoodForPopulation (Some unsweet) ''child'' popcornSnack) = ''Avoid''
   \<and> ev_severityScore (evaluateFoodForPopulation (Some unsweet) ''child'' popcornSnack) = Some 100
   \<and> ev_positives (evaluateFoodForPopulation (Some unsweet) ''child'' popcornSnack) = []"
    using p by blast
  ultimately show ?thesis using m m' i i' e by blast
qed

end
